theory Spec2Isabelle
  imports Main "HOL-Library.Word"
begin

unbundle bit_operations_syntax

section \<open>The dma-buf core (drivers/base/dma-buf.c)\<close>

text \<open>
  A shallow embedding of the buffer-sharing core. The target is the 32-bit ARM
  Exynos 3250, so \<open>unsigned long\<close>, \<open>size_t\<close> and pointers are 32-bit words;
  the null pointer is the word 0 and an error pointer is a negative errno cast to
  a pointer. C \<open>int\<close> results (errno values, hook results) are HOL integers.
  The model is sequential: \<open>mutex_lock\<close> and \<open>mutex_unlock\<close> have no effect
  in it and are left out, and so are the log lines of \<open>WARN_ON\<close>.
\<close>

type_synonym ulong = "32 word"
type_synonym uint = "32 word"
type_synonym ptr = "32 word"

subsection \<open>Constants and macros of headers outside the sources at hand\<close>

text \<open>
  The errno values, the page shift and the poll bits, with the values of the kernel's
  headers for ARM. The properties below use of them only that the errno values are
  positive, that a page has 4096 bytes and that \<open>POLLIN | POLLOUT\<close> is neither 0 nor
  \<open>POLLERR\<close>.
\<close>

definition EPERM :: int where "EPERM = 1"
definition ENOMEM :: int where "ENOMEM = 12"
definition EFAULT :: int where "EFAULT = 14"
definition EBUSY :: int where "EBUSY = 16"
definition EINVAL :: int where "EINVAL = 22"
definition EOVERFLOW :: int where "EOVERFLOW = 75"

definition PAGE_SHIFT :: nat where "PAGE_SHIFT = 12"

definition POLLIN :: uint where "POLLIN = 1"
definition POLLOUT :: uint where "POLLOUT = 4"
definition POLLERR :: uint where "POLLERR = 8"

text \<open>\<open>linux/err.h\<close>: the last 4095 addresses encode errno values.\<close>

definition ERR_PTR :: "int \<Rightarrow> ptr" where
  "ERR_PTR e = word_of_int e"

definition IS_ERR :: "ptr \<Rightarrow> bool" where
  "IS_ERR p = (p \<ge> - 4095)"

definition IS_ERR_OR_NULL :: "ptr \<Rightarrow> bool" where
  "IS_ERR_OR_NULL p = (p = 0 \<or> IS_ERR p)"

subsection \<open>Data\<close>

text \<open>\<open>struct vm_area_struct\<close>, the fields the core touches.\<close>

record vm_area_struct =
  vm_start :: ulong
  vm_end :: ulong
  vm_pgoff :: ulong
  vm_file :: ptr

text \<open>
  \<open>struct dma_buf_ops\<close>: a table of function pointers supplied by the exporter,
  \<open>None\<close> for a null entry. A hook receives the pointers the C hook receives
  and works on the state \<open>'e\<close> of the world outside the core (the exporter's own
  data, reached in C through \<open>dmabuf->priv\<close>); it cannot touch the core's
  objects. The attach hook returns, next to its status, the value it leaves in
  \<open>attach->priv\<close>; the mmap hook returns the region as it leaves it.
\<close>

record 'e dma_buf_ops =
  attach :: "(ptr \<Rightarrow> ptr \<Rightarrow> ptr \<Rightarrow> 'e \<Rightarrow> (int \<times> ptr) \<times> 'e) option"
  detach :: "(ptr \<Rightarrow> ptr \<Rightarrow> 'e \<Rightarrow> 'e) option"
  map_dma_buf :: "(ptr \<Rightarrow> nat \<Rightarrow> 'e \<Rightarrow> ptr \<times> 'e) option"
  unmap_dma_buf :: "(ptr \<Rightarrow> ptr \<Rightarrow> nat \<Rightarrow> 'e \<Rightarrow> 'e) option"
  release :: "(ptr \<Rightarrow> 'e \<Rightarrow> 'e) option"
  begin_cpu_access :: "(ptr \<Rightarrow> ulong \<Rightarrow> ulong \<Rightarrow> nat \<Rightarrow> 'e \<Rightarrow> int \<times> 'e) option"
  end_cpu_access :: "(ptr \<Rightarrow> ulong \<Rightarrow> ulong \<Rightarrow> nat \<Rightarrow> 'e \<Rightarrow> 'e) option"
  kmap_atomic :: "(ptr \<Rightarrow> ulong \<Rightarrow> 'e \<Rightarrow> ptr \<times> 'e) option"
  kunmap_atomic :: "(ptr \<Rightarrow> ulong \<Rightarrow> ptr \<Rightarrow> 'e \<Rightarrow> 'e) option"
  kmap :: "(ptr \<Rightarrow> ulong \<Rightarrow> 'e \<Rightarrow> ptr \<times> 'e) option"
  kunmap :: "(ptr \<Rightarrow> ulong \<Rightarrow> ptr \<Rightarrow> 'e \<Rightarrow> 'e) option"
  mmap :: "(ptr \<Rightarrow> vm_area_struct \<Rightarrow> 'e \<Rightarrow> (int \<times> vm_area_struct) \<times> 'e) option"
  vmap :: "(ptr \<Rightarrow> 'e \<Rightarrow> ptr \<times> 'e) option"
  vunmap :: "(ptr \<Rightarrow> ptr \<Rightarrow> 'e \<Rightarrow> 'e) option"

text \<open>
  \<open>struct dmabuf_sync_reservation\<close>, the object behind \<open>dmabuf->sync\<close>: the
  fields \<open>dma_buf_poll\<close> reads and writes, with the wait queue \<open>poll_wait\<close> as the
  list of the poll tables waiting on it.
\<close>

record dmabuf_sync_reservation =
  locked :: bool
  polled :: bool
  poll_event :: bool
  poll_wait :: "ptr list"

text \<open>
  \<open>struct dma_buf\<close>. The list head \<open>attachments\<close> is the list of the addresses of
  the attachment records linked into it, newest first; \<open>sync\<close> is \<open>None\<close> for a
  null pointer.
\<close>

record 'e dma_buf =
  size_b :: ulong
  file_b :: ptr
  attachments :: "ptr list"
  ops :: "'e dma_buf_ops"
  priv :: ptr
  vmapping_counter :: uint
  vmap_ptr :: ptr
  sync :: "dmabuf_sync_reservation option"

record dma_buf_attachment =
  dmabuf :: ptr
  dev :: ptr
  priv_att :: ptr

text \<open>\<open>struct file\<close>: the reference count, the operations table and the private data.\<close>

datatype file_operations = Dma_buf_fops | Other_fops

record file_struct =
  f_count :: nat
  f_op :: file_operations
  private_data :: ptr

text \<open>The two request structures of the ioctl interface, as they lie in user memory.\<close>

record dma_buf_info =
  fence_supported :: ulong
  size_i :: ulong

record dma_buf_fence =
  ctx :: ulong
  type_f :: uint

text \<open>
  Every call that leaves the core is recorded, in order: the exporter's hooks and the
  entry points of the synchronisation layer.
\<close>

datatype call =
    Ops_release ptr
  | Ops_attach ptr ptr ptr
  | Ops_mmap ptr
  | Ops_vmap ptr
  | Ops_vunmap ptr ptr
  | Sync_reservation_init ptr
  | Sync_reservation_fini ptr
  | Sync_init
  | Sync_get ptr ptr uint
  | Sync_lock ptr
  | Sync_unlock ptr
  | Sync_put ptr ptr
  | Sync_fini ptr
  | Sync_single_lock ptr uint bool
  | Sync_single_unlock ptr

text \<open>
  The kernel state: the live objects by address, user memory (the request structures
  that can be read, by address, and the addresses that can be written), the
  allocator's free addresses, the state of the outside world and the record of calls.
\<close>

record 'e kernel =
  bufs :: "ptr \<rightharpoonup> 'e dma_buf"
  attachs :: "ptr \<rightharpoonup> dma_buf_attachment"
  files :: "ptr \<rightharpoonup> file_struct"
  user_info :: "ptr \<rightharpoonup> dma_buf_info"
  user_fence :: "ptr \<rightharpoonup> dma_buf_fence"
  user_writable :: "ptr set"
  free_mem :: "ptr list"
  env :: 'e
  trace :: "call list"

text \<open>
  A call returns (\<open>Done\<close>), hits a \<open>BUG_ON\<close> (\<open>BUG\<close>), or dereferences a pointer
  that is not a live object or calls through a null function pointer (\<open>Oops\<close>).
\<close>

datatype 'a outcome = BUG | Oops | Done 'a

subsection \<open>Collaborators outside the file\<close>

text \<open>
  Modelled from the spec: \<open>kzalloc\<close> and \<open>kfree\<close> (the slab allocator is not part
  of the sources). An allocation either fails, returning the null pointer, or returns
  a fresh address; the free addresses are a list, the allocation takes its head and
  fails when none is left.
\<close>

definition kzalloc :: "'e kernel \<Rightarrow> ptr \<times> 'e kernel" where
  "kzalloc s = (case free_mem s of [] \<Rightarrow> (0, s) | a # as \<Rightarrow> (a, s\<lparr>free_mem := as\<rparr>))"

definition kfree_dma_buf :: "ptr \<Rightarrow> 'e kernel \<Rightarrow> 'e kernel" where
  "kfree_dma_buf p s = s\<lparr>bufs := (bufs s)(p := None), free_mem := free_mem s @ [p]\<rparr>"

definition kfree_attachment :: "ptr \<Rightarrow> 'e kernel \<Rightarrow> 'e kernel" where
  "kfree_attachment p s = s\<lparr>attachs := (attachs s)(p := None), free_mem := free_mem s @ [p]\<rparr>"

text \<open>
  Modelled from the spec: \<open>anon_inode_getfile\<close> (fs/anon_inodes.c is not part of the
  sources). Export "associates a fresh reference-counted handle": a new file with one
  reference, the given operations and private data; an error pointer when no memory
  is left.
\<close>

definition anon_inode_getfile :: "file_operations \<Rightarrow> ptr \<Rightarrow> int \<Rightarrow> 'e kernel \<Rightarrow> ptr \<times> 'e kernel" where
  "anon_inode_getfile fops pd flags s =
     (case kzalloc s of (f, s1) \<Rightarrow>
        if f = 0 then (ERR_PTR (- ENOMEM), s1)
        else (f, s1\<lparr>files := (files s1)(f \<mapsto> \<lparr>f_count = 1, f_op = fops, private_data = pd\<rparr>)\<rparr>))"

text \<open>Helpers of the model: updating a live buffer, and a call that leaves the core.\<close>

definition upd_buf :: "ptr \<Rightarrow> ('e dma_buf \<Rightarrow> 'e dma_buf) \<Rightarrow> 'e kernel \<Rightarrow> 'e kernel" where
  "upd_buf p g s = (case bufs s p of None \<Rightarrow> s | Some b \<Rightarrow> s\<lparr>bufs := (bufs s)(p \<mapsto> g b)\<rparr>)"

definition call_out :: "call \<Rightarrow> ('e \<Rightarrow> 'r \<times> 'e) \<Rightarrow> 'e kernel \<Rightarrow> 'r \<times> 'e kernel" where
  "call_out c h s = (case h (env s) of (r, e') \<Rightarrow> (r, s\<lparr>env := e', trace := trace s @ [c]\<rparr>))"

definition call_out_void :: "call \<Rightarrow> ('e \<Rightarrow> 'e) \<Rightarrow> 'e kernel \<Rightarrow> 'e kernel" where
  "call_out_void c h s = s\<lparr>env := h (env s), trace := trace s @ [c]\<rparr>"

definition note_call :: "call \<Rightarrow> 'e kernel \<Rightarrow> 'e kernel" where
  "note_call c s = s\<lparr>trace := trace s @ [c]\<rparr>"

text \<open>
  Modelled from the spec: \<open>dmabuf_sync_reservation_init\<close> and
  \<open>dmabuf_sync_reservation_fini\<close> (linux/dmabuf-sync.h is not part of the sources).
  "Init(buffer): sets Unlocked, clears poll flag, empties waiter queue"; the teardown
  removes the reservation state from the buffer.
\<close>

definition dmabuf_sync_reservation_init :: "ptr \<Rightarrow> 'e kernel \<Rightarrow> 'e kernel" where
  "dmabuf_sync_reservation_init p s =
     upd_buf p (\<lambda>b. b\<lparr>sync := Some \<lparr>locked = False, polled = False,
                                     poll_event = False, poll_wait = []\<rparr>\<rparr>)
       (note_call (Sync_reservation_init p) s)"

definition dmabuf_sync_reservation_fini :: "ptr \<Rightarrow> 'e kernel \<Rightarrow> 'e kernel" where
  "dmabuf_sync_reservation_fini p s =
     upd_buf p (\<lambda>b. b\<lparr>sync := None\<rparr>) (note_call (Sync_reservation_fini p) s)"

text \<open>
  Modelled from the spec: \<open>dmabuf_sync_single_unlock\<close> (drivers/base/dmabuf-sync.c is
  not part of the sources). "Unlock(buffer): transitions to Unlocked, sets the
  poll-edge flag, wakes queued waiters"; a buffer without reservation state is left
  as it is.
\<close>

definition dmabuf_sync_single_unlock :: "ptr \<Rightarrow> 'e kernel \<Rightarrow> 'e kernel" where
  "dmabuf_sync_single_unlock p s =
     upd_buf p (\<lambda>b. case sync b of
                       None \<Rightarrow> b
                     | Some r \<Rightarrow> b\<lparr>sync := Some (r\<lparr>locked := False, poll_event := True,
                                                     poll_wait := []\<rparr>)\<rparr>)
       (note_call (Sync_single_unlock p) s)"

text \<open>
  Modelled from the spec: \<open>poll_wait\<close> (linux/poll.h is not part of the sources):
  it "registers the caller to be woken later", here the caller's poll table at the
  end of the reservation's wait queue.
\<close>

definition poll_wait_add :: "ptr \<Rightarrow> dmabuf_sync_reservation \<Rightarrow> dmabuf_sync_reservation" where
  "poll_wait_add pt r = r\<lparr>poll_wait := poll_wait r @ [pt]\<rparr>"

text \<open>
  The other entry points of the synchronisation layer are parameters: the lock
  arbitration is policy of that layer. Each works on the outside state and returns
  what the C function returns.
\<close>

record 'e dmabuf_sync_layer =
  dmabuf_sync_init :: "'e \<Rightarrow> ptr \<times> 'e"
  dmabuf_sync_get :: "ptr \<Rightarrow> ptr \<Rightarrow> uint \<Rightarrow> 'e \<Rightarrow> int \<times> 'e"
  dmabuf_sync_lock :: "ptr \<Rightarrow> 'e \<Rightarrow> int \<times> 'e"
  dmabuf_sync_unlock :: "ptr \<Rightarrow> 'e \<Rightarrow> int \<times> 'e"
  dmabuf_sync_put :: "ptr \<Rightarrow> ptr \<Rightarrow> 'e \<Rightarrow> 'e"
  dmabuf_sync_fini :: "ptr \<Rightarrow> 'e \<Rightarrow> 'e"
  dmabuf_sync_single_lock :: "ptr \<Rightarrow> uint \<Rightarrow> bool \<Rightarrow> 'e \<Rightarrow> int \<times> 'e"

text \<open>
  The lock types and flags of \<open>fcntl.h\<close> and \<open>fs.h\<close> and the access types of
  \<open>dma-buf.h\<close>: the headers are not part of the sources and the lock types differ
  between architectures, so they are parameters too.
\<close>

record lock_consts =
  F_RDLCK :: "8 word"
  F_WRLCK :: "8 word"
  F_UNLCK :: "8 word"
  FL_SLEEP :: uint
  DMA_BUF_ACCESS_R :: uint
  DMA_BUF_ACCESS_W :: uint

record file_lock =
  fl_flags :: uint
  fl_type :: "8 word"

text \<open>
  Modelled from the spec: \<open>copy_from_user\<close> and \<open>copy_to_user\<close> (the user-access
  primitives are not part of the sources). A copy from user memory fails at an address
  that holds no readable structure; a copy to user memory fails at an address that
  cannot be written. The two are independent: memory may be readable and not
  writable.
\<close>

definition copy_from_user_info :: "'e kernel \<Rightarrow> ptr \<Rightarrow> dma_buf_info option" where
  "copy_from_user_info s arg = user_info s arg"

definition copy_to_user_info :: "'e kernel \<Rightarrow> ptr \<Rightarrow> dma_buf_info \<Rightarrow> 'e kernel option" where
  "copy_to_user_info s arg v =
     (if arg \<in> user_writable s then Some (s\<lparr>user_info := (user_info s)(arg \<mapsto> v)\<rparr>) else None)"

definition copy_from_user_fence :: "'e kernel \<Rightarrow> ptr \<Rightarrow> dma_buf_fence option" where
  "copy_from_user_fence s arg = user_fence s arg"

definition copy_to_user_fence :: "'e kernel \<Rightarrow> ptr \<Rightarrow> dma_buf_fence \<Rightarrow> 'e kernel option" where
  "copy_to_user_fence s arg v =
     (if arg \<in> user_writable s then Some (s\<lparr>user_fence := (user_fence s)(arg \<mapsto> v)\<rparr>) else None)"

subsection \<open>Export\<close>

text \<open>\<open>is_dma_buf_file\<close>: the file's operations table is the core's own.\<close>

definition is_dma_buf_file :: "file_struct \<Rightarrow> bool" where
  "is_dma_buf_file f = (f_op f = Dma_buf_fops)"

text \<open>
  \<open>dma_buf_export\<close>. Null private data, a null table or a table missing a mandatory
  hook are rejected before anything is allocated. The object comes zeroed from
  \<open>kzalloc\<close>; \<open>INIT_LIST_HEAD\<close> leaves the attachment list empty. The result of
  \<open>anon_inode_getfile\<close> is stored unchecked, as in the source.
\<close>

definition mandatory_ops_missing :: "'e dma_buf_ops \<Rightarrow> bool" where
  "mandatory_ops_missing t =
     (map_dma_buf t = None \<or> unmap_dma_buf t = None \<or> release t = None
      \<or> kmap_atomic t = None \<or> kmap t = None \<or> mmap t = None)"

definition zeroed_dma_buf :: "'e dma_buf_ops \<Rightarrow> 'e dma_buf" where
  "zeroed_dma_buf t = \<lparr>size_b = 0, file_b = 0, attachments = [], ops = t, priv = 0,
                       vmapping_counter = 0, vmap_ptr = 0, sync = None\<rparr>"

definition dma_buf_export :: "'e kernel \<Rightarrow> ptr \<Rightarrow> 'e dma_buf_ops option \<Rightarrow> ulong \<Rightarrow> int \<Rightarrow> ptr \<times> 'e kernel" where
  "dma_buf_export s pv opt sz flags =
     (case opt of
        None \<Rightarrow> (ERR_PTR (- EINVAL), s)
      | Some t \<Rightarrow>
          if pv = 0 \<or> mandatory_ops_missing t then (ERR_PTR (- EINVAL), s)
          else case kzalloc s of (p, s1) \<Rightarrow>
            if p = 0 then (ERR_PTR (- ENOMEM), s1)
            else
              let s2 = s1\<lparr>bufs := (bufs s1)(p \<mapsto> (zeroed_dma_buf t)\<lparr>priv := pv, size_b := sz\<rparr>)\<rparr>
              in case anon_inode_getfile Dma_buf_fops p flags s2 of (f, s3) \<Rightarrow>
                   let s4 = dmabuf_sync_reservation_init p s3;
                       s5 = upd_buf p (\<lambda>b. b\<lparr>file_b := f\<rparr>) s4;
                       s6 = upd_buf p (\<lambda>b. b\<lparr>attachments := []\<rparr>) s5
                   in (p, s6))"

subsection \<open>Reference counting and release\<close>

text \<open>
  \<open>dma_buf_release\<close>, the release operation of the buffer's file: the fatal check on
  the vmap counter, the exporter's release hook, the teardown of the reservation
  state, and the free.
\<close>

definition dma_buf_release :: "'e kernel \<Rightarrow> ptr \<Rightarrow> ptr \<Rightarrow> (int \<times> 'e kernel) outcome" where
  "dma_buf_release s inode filp =
     (case files s filp of
        None \<Rightarrow> Oops
      | Some f \<Rightarrow>
          if \<not> is_dma_buf_file f then Done (- EINVAL, s)
          else
            (case bufs s (private_data f) of
               None \<Rightarrow> Oops
             | Some b \<Rightarrow>
                 if vmapping_counter b \<noteq> 0 then BUG
                 else
                   (case release (ops b) of
                      None \<Rightarrow> Oops
                    | Some h \<Rightarrow>
                        let s1 = call_out_void (Ops_release (private_data f)) (h (private_data f)) s;
                            s2 = dmabuf_sync_reservation_fini (private_data f) s1;
                            s3 = kfree_dma_buf (private_data f) s2
                        in Done (0, s3))))"

text \<open>
  Modelled from the spec: \<open>get_file\<close> and \<open>fput\<close> (the file table of the kernel is
  not part of the sources). "Release(buffer): decrements the reference count; at zero,
  invokes the exporter's release hook, tears down reservation state, and frees the
  object": \<open>fput\<close> drops one reference and, when it was the last, runs the release
  operation of the file (for a buffer's file \<open>dma_buf_release\<close>) and frees the file.
  \<open>get_dma_buf\<close> of \<open>dma-buf.h\<close> takes a reference on the buffer's file.
\<close>

definition get_file :: "'e kernel \<Rightarrow> ptr \<Rightarrow> 'e kernel outcome" where
  "get_file s filp =
     (case files s filp of
        None \<Rightarrow> Oops
      | Some f \<Rightarrow> Done (s\<lparr>files := (files s)(filp \<mapsto> f\<lparr>f_count := f_count f + 1\<rparr>)\<rparr>))"

definition fput :: "'e kernel \<Rightarrow> ptr \<Rightarrow> 'e kernel outcome" where
  "fput s filp =
     (case files s filp of
        None \<Rightarrow> Oops
      | Some f \<Rightarrow>
          if f_count f = 0 then Oops
          else if f_count f - 1 \<noteq> 0
          then Done (s\<lparr>files := (files s)(filp \<mapsto> f\<lparr>f_count := f_count f - 1\<rparr>)\<rparr>)
          else
            (case (if is_dma_buf_file f then dma_buf_release s 0 filp else Done (0, s)) of
               BUG \<Rightarrow> BUG
             | Oops \<Rightarrow> Oops
             | Done (r, s1) \<Rightarrow>
                 Done (s1\<lparr>files := (files s1)(filp := None), free_mem := free_mem s1 @ [filp]\<rparr>)))"

definition get_dma_buf :: "'e kernel \<Rightarrow> ptr \<Rightarrow> 'e kernel outcome" where
  "get_dma_buf s p = (case bufs s p of None \<Rightarrow> Oops | Some b \<Rightarrow> get_file s (file_b b))"

text \<open>\<open>dma_buf_put\<close>: a null buffer or a buffer without file only warns.\<close>

definition dma_buf_put :: "'e kernel \<Rightarrow> ptr \<Rightarrow> 'e kernel outcome" where
  "dma_buf_put s p =
     (if p = 0 then Done s
      else case bufs s p of
        None \<Rightarrow> Oops
      | Some b \<Rightarrow> if file_b b = 0 then Done s else fput s (file_b b))"

text \<open>A run of acquisitions, and a run of releases, stopping at the first that does not return.\<close>

fun get_dma_buf_n :: "nat \<Rightarrow> 'e kernel \<Rightarrow> ptr \<Rightarrow> 'e kernel outcome" where
  "get_dma_buf_n 0 s p = Done s"
| "get_dma_buf_n (Suc n) s p =
     (case get_dma_buf s p of BUG \<Rightarrow> BUG | Oops \<Rightarrow> Oops | Done s1 \<Rightarrow> get_dma_buf_n n s1 p)"

fun dma_buf_put_n :: "nat \<Rightarrow> 'e kernel \<Rightarrow> ptr \<Rightarrow> 'e kernel outcome" where
  "dma_buf_put_n 0 s p = Done s"
| "dma_buf_put_n (Suc n) s p =
     (case dma_buf_put s p of BUG \<Rightarrow> BUG | Oops \<Rightarrow> Oops | Done s1 \<Rightarrow> dma_buf_put_n n s1 p)"

subsection \<open>Kernel mappings\<close>

text \<open>
  \<open>dma_buf_vmap\<close>. With a mapping outstanding the counter is incremented and the
  cached pointer returned; otherwise the exporter's hook is called and its result
  cached unless it is null or an error pointer.
\<close>

definition dma_buf_vmap :: "'e kernel \<Rightarrow> ptr \<Rightarrow> (ptr \<times> 'e kernel) outcome" where
  "dma_buf_vmap s p =
     (if p = 0 then Done (0, s)
      else case bufs s p of
        None \<Rightarrow> Oops
      | Some b \<Rightarrow>
          (case vmap (ops b) of
             None \<Rightarrow> Done (0, s)
           | Some h \<Rightarrow>
               if vmapping_counter b \<noteq> 0 then
                 (if vmap_ptr b = 0 then BUG
                  else Done (vmap_ptr b,
                             upd_buf p (\<lambda>b. b\<lparr>vmapping_counter := vmapping_counter b + 1\<rparr>) s))
               else if vmap_ptr b \<noteq> 0 then BUG
               else case call_out (Ops_vmap p) (h p) s of (q, s1) \<Rightarrow>
                 if IS_ERR_OR_NULL q then Done (q, s1)
                 else Done (q, upd_buf p (\<lambda>b. b\<lparr>vmap_ptr := q, vmapping_counter := 1\<rparr>) s1)))"

text \<open>\<open>dma_buf_vunmap\<close>, with its three fatal checks in the order of the source.\<close>

definition dma_buf_vunmap :: "'e kernel \<Rightarrow> ptr \<Rightarrow> ptr \<Rightarrow> 'e kernel outcome" where
  "dma_buf_vunmap s p vaddr =
     (if p = 0 then Done s
      else case bufs s p of
        None \<Rightarrow> Oops
      | Some b \<Rightarrow>
          if vmap_ptr b = 0 then BUG
          else if vmapping_counter b = 0 then BUG
          else if vmap_ptr b \<noteq> vaddr then BUG
          else
            let s1 = upd_buf p (\<lambda>b. b\<lparr>vmapping_counter := vmapping_counter b - 1\<rparr>) s
            in if vmapping_counter b - 1 = 0 then
                 let s2 = (case vunmap (ops b) of
                             None \<Rightarrow> s1
                           | Some h \<Rightarrow> call_out_void (Ops_vunmap p vaddr) (h p vaddr) s1)
                 in Done (upd_buf p (\<lambda>b. b\<lparr>vmap_ptr := 0\<rparr>) s2)
               else Done s1)"

subsection \<open>Userspace mapping\<close>

text \<open>
  \<open>dma_buf_mmap\<close>. The region is passed by pointer; the model returns it next to the
  status. The two range checks come before any change to the region.
\<close>

definition vma_pages :: "vm_area_struct \<Rightarrow> ulong" where
  "vma_pages v = drop_bit PAGE_SHIFT (vm_end v - vm_start v)"

definition dma_buf_mmap ::
  "'e kernel \<Rightarrow> ptr \<Rightarrow> vm_area_struct option \<Rightarrow> ulong \<Rightarrow> (int \<times> vm_area_struct option \<times> 'e kernel) outcome" where
  "dma_buf_mmap s p vma pgoff =
     (case vma of
        None \<Rightarrow> Done (- EINVAL, vma, s)
      | Some v \<Rightarrow>
          if p = 0 then Done (- EINVAL, vma, s)
          else
           (case bufs s p of
            None \<Rightarrow> Oops
          | Some b \<Rightarrow>
              if pgoff + vma_pages v < pgoff then Done (- EOVERFLOW, vma, s)
              else if pgoff + vma_pages v > drop_bit PAGE_SHIFT (size_b b) then Done (- EINVAL, vma, s)
              else
               (case (if vm_file v \<noteq> 0 then fput s (vm_file v) else Done s) of
                BUG \<Rightarrow> BUG
              | Oops \<Rightarrow> Oops
              | Done s1 \<Rightarrow>
                  (case bufs s1 p of
                     None \<Rightarrow> Oops
                   | Some b1 \<Rightarrow>
                       (case get_file s1 (file_b b1) of
                          BUG \<Rightarrow> BUG
                        | Oops \<Rightarrow> Oops
                        | Done s2 \<Rightarrow>
                            (case mmap (ops b1) of
                               None \<Rightarrow> Oops
                             | Some h \<Rightarrow>
                                 (case call_out (Ops_mmap p)
                                         (h p (v\<lparr>vm_file := file_b b1, vm_pgoff := pgoff\<rparr>)) s2 of
                                    ((ret, v'), s3) \<Rightarrow> Done (ret, Some v', s3))))))))"

subsection \<open>Poll\<close>

text \<open>\<open>dma_buf_poll\<close>; the second argument is the caller's poll table.\<close>

definition dma_buf_poll :: "'e kernel \<Rightarrow> ptr \<Rightarrow> ptr \<Rightarrow> (uint \<times> 'e kernel) outcome" where
  "dma_buf_poll s filp poll =
     (case files s filp of
        None \<Rightarrow> Oops
      | Some f \<Rightarrow>
          if \<not> is_dma_buf_file f then Done (POLLERR, s)
          else if private_data f = 0 then Done (POLLERR, s)
          else
           (case bufs s (private_data f) of
            None \<Rightarrow> Oops
          | Some b \<Rightarrow>
              (case sync b of
                 None \<Rightarrow> Done (POLLERR, s)
               | Some robj \<Rightarrow>
                   let r1 = robj\<lparr>polled := True\<rparr> in
                   if poll_event r1 then
                     Done (POLLIN OR POLLOUT,
                           upd_buf (private_data f) (\<lambda>b. b\<lparr>sync := Some (r1\<lparr>poll_event := False\<rparr>)\<rparr>) s)
                   else if \<not> locked r1 then
                     Done (POLLERR, upd_buf (private_data f) (\<lambda>b. b\<lparr>sync := Some r1\<rparr>) s)
                   else
                     Done (0, upd_buf (private_data f)
                                (\<lambda>b. b\<lparr>sync := Some (poll_wait_add poll r1)\<rparr>) s))))"

subsection \<open>Attach\<close>

text \<open>
  \<open>dma_buf_attach\<close>. The record is allocated and filled before the exporter's hook
  sees it; \<open>list_add\<close> puts it at the head of the buffer's list.
\<close>

definition dma_buf_attach :: "'e kernel \<Rightarrow> ptr \<Rightarrow> ptr \<Rightarrow> (ptr \<times> 'e kernel) outcome" where
  "dma_buf_attach s p d =
     (if p = 0 \<or> d = 0 then Done (ERR_PTR (- EINVAL), s)
      else case kzalloc s of (a, s1) \<Rightarrow>
        if a = 0 then Done (ERR_PTR (- ENOMEM), s1)
        else
          let s2 = s1\<lparr>attachs := (attachs s1)(a \<mapsto> \<lparr>dmabuf = p, dev = d, priv_att = 0\<rparr>)\<rparr>
          in
           (case bufs s2 p of
            None \<Rightarrow> Oops
          | Some b \<Rightarrow>
              (case attach (ops b) of
                 None \<Rightarrow> Done (a, upd_buf p (\<lambda>b. b\<lparr>attachments := a # attachments b\<rparr>) s2)
               | Some h \<Rightarrow>
                   (case call_out (Ops_attach p d a) (h p d a) s2 of
                      ((ret, pa), s3) \<Rightarrow>
                        let s4 = s3\<lparr>attachs := (attachs s3)(a \<mapsto> \<lparr>dmabuf = p, dev = d, priv_att = pa\<rparr>)\<rparr>
                        in if ret \<noteq> 0 then Done (ERR_PTR ret, kfree_attachment a s4)
                           else Done (a, upd_buf p (\<lambda>b. b\<lparr>attachments := a # attachments b\<rparr>) s4)))))"

subsection \<open>The ioctl interface\<close>

text \<open>The commands of \<open>dma-buf.h\<close>, with every other number as one case.\<close>

datatype ioctl_cmd =
    DMABUF_IOCTL_GET_INFO
  | DMABUF_IOCTL_GET_FENCE
  | DMABUF_IOCTL_PUT_FENCE
  | Other_cmd uint

definition dma_buf_get_info :: "'e dma_buf \<Rightarrow> dma_buf_info \<Rightarrow> int \<times> dma_buf_info" where
  "dma_buf_get_info b info = (0, info\<lparr>fence_supported := 0, size_i := size_b b\<rparr>)"

text \<open>
  \<open>dma_buf_get_fence\<close>. The local \<open>ret\<close> has no initialiser and is not assigned on
  the path that leaves after a failed \<open>dmabuf_sync_init\<close>; the value it holds there is
  the parameter \<open>ret0\<close>.
\<close>

definition dma_buf_get_fence ::
  "'e dmabuf_sync_layer \<Rightarrow> int \<Rightarrow> 'e kernel \<Rightarrow> ptr \<Rightarrow> dma_buf_fence \<Rightarrow> int \<times> dma_buf_fence \<times> 'e kernel" where
  "dma_buf_get_fence L ret0 s p df =
     (if ctx df \<noteq> 0 then (- EBUSY, df, s)
      else case call_out Sync_init (dmabuf_sync_init L) s of (sy, s1) \<Rightarrow>
        if IS_ERR sy then (ret0, df\<lparr>ctx := 0\<rparr>, s1)
        else case call_out (Sync_get sy p (type_f df)) (dmabuf_sync_get L sy p (type_f df)) s1 of (ret, s2) \<Rightarrow>
          if ret < 0 then
            (ret, df\<lparr>ctx := 0\<rparr>, call_out_void (Sync_fini sy) (dmabuf_sync_fini L sy) s2)
          else case call_out (Sync_lock sy) (dmabuf_sync_lock L sy) s2 of (ret, s3) \<Rightarrow>
            if ret < 0 then
              (ret, df\<lparr>ctx := 0\<rparr>,
               call_out_void (Sync_fini sy) (dmabuf_sync_fini L sy)
                 (call_out_void (Sync_put sy p) (dmabuf_sync_put L sy p) s3))
            else (0, df\<lparr>ctx := sy\<rparr>, s3))"

definition dma_buf_put_fence ::
  "'e dmabuf_sync_layer \<Rightarrow> 'e kernel \<Rightarrow> ptr \<Rightarrow> dma_buf_fence \<Rightarrow> int \<times> dma_buf_fence \<times> 'e kernel" where
  "dma_buf_put_fence L s p df =
     (if ctx df = 0 then (- EFAULT, df, s)
      else case call_out (Sync_unlock (ctx df)) (dmabuf_sync_unlock L (ctx df)) s of (ret, s1) \<Rightarrow>
        if ret \<noteq> 0 then (ret, df, s1)
        else (0, df\<lparr>ctx := 0\<rparr>,
              call_out_void (Sync_fini (ctx df)) (dmabuf_sync_fini L (ctx df))
                (call_out_void (Sync_put (ctx df) p) (dmabuf_sync_put L (ctx df) p) s1)))"

definition dma_buf_ioctl ::
  "'e dmabuf_sync_layer \<Rightarrow> int \<Rightarrow> 'e kernel \<Rightarrow> ptr \<Rightarrow> ioctl_cmd \<Rightarrow> ptr \<Rightarrow> (int \<times> 'e kernel) outcome" where
  "dma_buf_ioctl L ret0 s filp cmd arg =
     (case files s filp of
        None \<Rightarrow> Oops
      | Some f \<Rightarrow>
          if \<not> is_dma_buf_file f then Done (- EINVAL, s)
          else if private_data f = 0 then Done (- EFAULT, s)
          else
           (case cmd of
            DMABUF_IOCTL_GET_INFO \<Rightarrow>
              (case copy_from_user_info s arg of
                 None \<Rightarrow> Done (- EFAULT, s)
               | Some info \<Rightarrow>
                   (case bufs s (private_data f) of
                      None \<Rightarrow> Oops
                    | Some b \<Rightarrow>
                        (case dma_buf_get_info b info of (ret, info') \<Rightarrow>
                           if ret < 0 then Done (ret, s)
                           else
                            (case copy_to_user_info s arg info' of
                             None \<Rightarrow> Done (- EFAULT, s)
                           | Some s' \<Rightarrow> Done (ret, s')))))
          | DMABUF_IOCTL_GET_FENCE \<Rightarrow>
              (case bufs s (private_data f) of
                 None \<Rightarrow> Oops
               | Some b \<Rightarrow>
                   if sync b = None then Done (- EPERM, s)
                   else
                    (case copy_from_user_fence s arg of
                     None \<Rightarrow> Done (- EFAULT, s)
                   | Some df \<Rightarrow>
                       (case dma_buf_get_fence L ret0 s (private_data f) df of (ret, df', s1) \<Rightarrow>
                          if ret < 0 then Done (ret, s1)
                          else
                           (case copy_to_user_fence s1 arg df' of
                            None \<Rightarrow> Done (- EFAULT, s1)
                          | Some s' \<Rightarrow> Done (ret, s')))))
          | DMABUF_IOCTL_PUT_FENCE \<Rightarrow>
              (case bufs s (private_data f) of
                 None \<Rightarrow> Oops
               | Some b \<Rightarrow>
                   if sync b = None then Done (- EPERM, s)
                   else
                    (case copy_from_user_fence s arg of
                     None \<Rightarrow> Done (- EFAULT, s)
                   | Some df \<Rightarrow>
                       (case dma_buf_put_fence L s (private_data f) df of (ret, df', s1) \<Rightarrow>
                          if ret < 0 then Done (ret, s1)
                          else
                           (case copy_to_user_fence s1 arg df' of
                            None \<Rightarrow> Done (- EFAULT, s1)
                          | Some s' \<Rightarrow> Done (ret, s')))))
          | Other_cmd n \<Rightarrow> Done (- EINVAL, s)))"

subsection \<open>Advisory locks\<close>

text \<open>
  \<open>dma_buf_lock\<close>. The three tests on the lock type are the masks of the source, in
  its order; \<open>wait\<close> is set from the sleep flag.
\<close>

definition dma_buf_lock ::
  "lock_consts \<Rightarrow> 'e dmabuf_sync_layer \<Rightarrow> 'e kernel \<Rightarrow> ptr \<Rightarrow> int \<Rightarrow> file_lock \<Rightarrow> (int \<times> 'e kernel) outcome" where
  "dma_buf_lock K L s filp cmd fl =
     (case files s filp of
        None \<Rightarrow> Oops
      | Some f \<Rightarrow>
          if \<not> is_dma_buf_file f then Done (- EINVAL, s)
          else if fl_type fl AND F_UNLCK K = F_UNLCK K
          then Done (0, dmabuf_sync_single_unlock (private_data f) s)
          else
           (case (if fl_type fl AND F_WRLCK K = F_WRLCK K then Some (DMA_BUF_ACCESS_W K)
                     else if fl_type fl AND F_RDLCK K = F_RDLCK K then Some (DMA_BUF_ACCESS_R K)
                     else None) of
            None \<Rightarrow> Done (- EINVAL, s)
          | Some ty \<Rightarrow>
              let wait = (fl_flags fl AND FL_SLEEP K \<noteq> 0)
              in Done (call_out (Sync_single_lock (private_data f) ty wait)
                         (dmabuf_sync_single_lock L (private_data f) ty wait) s)))"

subsection \<open>A small exporter and kernel state\<close>

text \<open>
  An exporter whose outside state counts the calls of its vmap hook, with every
  mandatory hook present, and a kernel state holding one exported buffer of four pages
  at address \<open>0x1000\<close>, its file at \<open>0x2000\<close>, two free addresses and two request
  structures in user memory, both readable and writable.
\<close>

definition demo_ops :: "nat dma_buf_ops" where
  "demo_ops = \<lparr>attach = Some (\<lambda>p d a e. ((0, 0x55), e)), detach = None,
                map_dma_buf = Some (\<lambda>a dir e. (0, e)), unmap_dma_buf = Some (\<lambda>a sg dir e. e),
                release = Some (\<lambda>p e. e), begin_cpu_access = None, end_cpu_access = None,
                kmap_atomic = Some (\<lambda>p n e. (0, e)), kunmap_atomic = None,
                kmap = Some (\<lambda>p n e. (0, e)), kunmap = None,
                mmap = Some (\<lambda>p v e. ((0, v), e)),
                vmap = Some (\<lambda>p e. (0x5000, Suc e)), vunmap = Some (\<lambda>p q e. e)\<rparr>"

definition demo_buf :: "nat dma_buf" where
  "demo_buf = \<lparr>size_b = 0x4000, file_b = 0x2000, attachments = [], ops = demo_ops, priv = 0x77,
                vmapping_counter = 0, vmap_ptr = 0,
                sync = Some \<lparr>locked = False, polled = False, poll_event = False, poll_wait = []\<rparr>\<rparr>"

definition demo_kernel :: "nat kernel" where
  "demo_kernel = \<lparr>bufs = [0x1000 \<mapsto> demo_buf], attachs = Map.empty,
                   files = [0x2000 \<mapsto> \<lparr>f_count = 1, f_op = Dma_buf_fops, private_data = 0x1000\<rparr>],
                   user_info = [0x9000 \<mapsto> \<lparr>fence_supported = 1, size_i = 0\<rparr>],
                   user_fence = [0xA000 \<mapsto> \<lparr>ctx = 0, type_f = 1\<rparr>],
                   user_writable = {0x9000, 0xA000},
                   free_mem = [0x3000, 0x4000], env = 0, trace = []\<rparr>"

text \<open>
  Variants of the buffer and of the state: a buffer whose exporter has no attach hook,
  one whose attach hook refuses, the state with a given reservation state, and the
  state with no memory left. A synchronisation layer whose calls all succeed, and one
  whose \<open>dmabuf_sync_init\<close> fails for lack of memory. The lock types of
  \<open>asm-generic/fcntl.h\<close>, which ARM uses, with \<open>FL_SLEEP\<close> of \<open>fs.h\<close> and the
  access types of \<open>dma-buf.h\<close>.
\<close>

definition demo_buf_bare :: "nat dma_buf" where
  "demo_buf_bare = demo_buf\<lparr>ops := demo_ops\<lparr>attach := None\<rparr>\<rparr>"

definition demo_kernel_no_mem :: "nat kernel" where
  "demo_kernel_no_mem = demo_kernel\<lparr>bufs := [0x1000 \<mapsto> demo_buf_bare], free_mem := []\<rparr>"

definition demo_kernel_with :: "dmabuf_sync_reservation \<Rightarrow> nat kernel" where
  "demo_kernel_with r = demo_kernel\<lparr>bufs := [0x1000 \<mapsto> demo_buf\<lparr>sync := Some r\<rparr>]\<rparr>"

definition demo_buf_refusing :: "nat dma_buf" where
  "demo_buf_refusing = demo_buf\<lparr>ops := demo_ops\<lparr>attach := Some (\<lambda>p d a e. ((- 12, 0x55), Suc e))\<rparr>\<rparr>"

definition demo_sync :: "nat dmabuf_sync_layer" where
  "demo_sync = \<lparr>dmabuf_sync_init = (\<lambda>e. (0x7000, e)),
                 dmabuf_sync_get = (\<lambda>sy p ty e. (0, e)),
                 dmabuf_sync_lock = (\<lambda>sy e. (0, e)),
                 dmabuf_sync_unlock = (\<lambda>sy e. (0, e)),
                 dmabuf_sync_put = (\<lambda>sy p e. e),
                 dmabuf_sync_fini = (\<lambda>sy e. e),
                 dmabuf_sync_single_lock = (\<lambda>p ty w e. (0, e))\<rparr>"

definition demo_sync_no_mem :: "nat dmabuf_sync_layer" where
  "demo_sync_no_mem = demo_sync\<lparr>dmabuf_sync_init := (\<lambda>e. (ERR_PTR (- ENOMEM), e))\<rparr>"

definition generic_lock_consts :: lock_consts where
  "generic_lock_consts = \<lparr>F_RDLCK = 0, F_WRLCK = 1, F_UNLCK = 2, FL_SLEEP = 128,
                           DMA_BUF_ACCESS_R = 1, DMA_BUF_ACCESS_W = 2\<rparr>"

section \<open>Properties\<close>

lemma upd_buf_Some: "bufs s p = Some b \<Longrightarrow> upd_buf p g s = s\<lparr>bufs := (bufs s)(p \<mapsto> g b)\<rparr>"
  by (simp add: upd_buf_def)

lemma upd_buf_None: "bufs s p = None \<Longrightarrow> upd_buf p g s = s"
  by (simp add: upd_buf_def)

subsection \<open>Export\<close>

text \<open>
  C1. \<open>dma_buf_export\<close> with null private data, a null operation table or a table
  missing one of map, unmap, release, kmap_atomic, kmap, mmap returns the error pointer
  of \<open>EINVAL\<close> and leaves the kernel state as it was, so nothing is allocated. With
  valid arguments and no memory left it returns the error pointer of \<open>ENOMEM\<close>. With
  valid arguments and memory it returns the address of a new buffer that holds the given
  private data, table and size, has no attachments, no cached mapping (null pointer,
  counter zero) and a reservation state that is unlocked, with no pending poll event
  and no waiters.
\<close>

theorem dma_buf_export_spec:
  "(pv = 0 \<or> opt = None
      \<or> (\<exists>t. opt = Some t \<and> (map_dma_buf t = None \<or> unmap_dma_buf t = None \<or> release t = None
                \<or> kmap_atomic t = None \<or> kmap t = None \<or> mmap t = None))
     \<longrightarrow> dma_buf_export s pv opt sz flags = (ERR_PTR (- EINVAL), s))
   \<and> (pv \<noteq> 0 \<and> opt = Some t \<and> map_dma_buf t \<noteq> None \<and> unmap_dma_buf t \<noteq> None \<and> release t \<noteq> None
        \<and> kmap_atomic t \<noteq> None \<and> kmap t \<noteq> None \<and> mmap t \<noteq> None
      \<longrightarrow> (free_mem s = [] \<longrightarrow> dma_buf_export s pv opt sz flags = (ERR_PTR (- ENOMEM), s))
        \<and> (\<forall>a rest. free_mem s = a # rest \<and> a \<noteq> 0 \<longrightarrow>
              (\<exists>s' b. dma_buf_export s pv opt sz flags = (a, s') \<and> bufs s' a = Some b
                 \<and> priv b = pv \<and> ops b = t \<and> size_b b = sz \<and> attachments b = []
                 \<and> vmap_ptr b = 0 \<and> vmapping_counter b = 0
                 \<and> sync b = Some \<lparr>locked = False, polled = False, poll_event = False, poll_wait = []\<rparr>)))"
proof (intro conjI impI allI)
  assume "pv = 0 \<or> opt = None
      \<or> (\<exists>t. opt = Some t \<and> (map_dma_buf t = None \<or> unmap_dma_buf t = None \<or> release t = None
                \<or> kmap_atomic t = None \<or> kmap t = None \<or> mmap t = None))"
  then show "dma_buf_export s pv opt sz flags = (ERR_PTR (- EINVAL), s)"
    by (auto simp: dma_buf_export_def mandatory_ops_missing_def split: option.splits)
next
  assume ok: "pv \<noteq> 0 \<and> opt = Some t \<and> map_dma_buf t \<noteq> None \<and> unmap_dma_buf t \<noteq> None \<and> release t \<noteq> None
        \<and> kmap_atomic t \<noteq> None \<and> kmap t \<noteq> None \<and> mmap t \<noteq> None"
  { assume "free_mem s = []"
    with ok show "dma_buf_export s pv opt sz flags = (ERR_PTR (- ENOMEM), s)"
      by (auto simp: dma_buf_export_def mandatory_ops_missing_def kzalloc_def) }
  { fix a rest assume "free_mem s = a # rest \<and> a \<noteq> 0"
    with ok show "\<exists>s' b. dma_buf_export s pv opt sz flags = (a, s') \<and> bufs s' a = Some b
                 \<and> priv b = pv \<and> ops b = t \<and> size_b b = sz \<and> attachments b = []
                 \<and> vmap_ptr b = 0 \<and> vmapping_counter b = 0
                 \<and> sync b = Some \<lparr>locked = False, polled = False, poll_event = False, poll_wait = []\<rparr>"
      by (cases rest)
         (auto simp: dma_buf_export_def mandatory_ops_missing_def kzalloc_def anon_inode_getfile_def
            dmabuf_sync_reservation_init_def note_call_def upd_buf_def zeroed_dma_buf_def Let_def) }
qed

theorem dma_buf_export_spec_witness:
  "dma_buf_export demo_kernel 0x77 (Some (demo_ops\<lparr>release := None\<rparr>)) 0x4000 0
     = (ERR_PTR (- EINVAL), demo_kernel)
   \<and> dma_buf_export (demo_kernel\<lparr>free_mem := []\<rparr>) 0x77 (Some demo_ops) 0x4000 0
       = (ERR_PTR (- ENOMEM), demo_kernel\<lparr>free_mem := []\<rparr>)
   \<and> (\<exists>s' b. dma_buf_export demo_kernel 0x77 (Some demo_ops) 0x4000 0 = (0x3000, s')
         \<and> bufs s' 0x3000 = Some b
         \<and> priv b = 0x77 \<and> ops b = demo_ops \<and> size_b b = 0x4000 \<and> attachments b = []
         \<and> vmap_ptr b = 0 \<and> vmapping_counter b = 0
         \<and> sync b = Some \<lparr>locked = False, polled = False, poll_event = False, poll_wait = []\<rparr>)"
  using dma_buf_export_spec [of "0x77" "Some (demo_ops\<lparr>release := None\<rparr>)" demo_kernel "0x4000" 0 demo_ops]
    dma_buf_export_spec [of "0x77" "Some demo_ops" "demo_kernel\<lparr>free_mem := []\<rparr>" "0x4000" 0 demo_ops]
    dma_buf_export_spec [of "0x77" "Some demo_ops" demo_kernel "0x4000" 0 demo_ops]
  by (simp add: demo_ops_def demo_kernel_def)

subsection \<open>Reference counting\<close>

lemma get_dma_buf_step:
  assumes "bufs s p = Some b" "files s (file_b b) = Some fl"
  shows "\<exists>s'. get_dma_buf s p = Done s' \<and> bufs s' = bufs s \<and> trace s' = trace s \<and> env s' = env s
            \<and> files s' (file_b b) = Some (fl\<lparr>f_count := f_count fl + 1\<rparr>)"
  using assms by (simp add: get_dma_buf_def get_file_def)

lemma get_dma_buf_n_count:
  "bufs s p = Some b \<Longrightarrow> files s (file_b b) = Some fl \<Longrightarrow>
   \<exists>s'. get_dma_buf_n n s p = Done s' \<and> bufs s' = bufs s \<and> trace s' = trace s \<and> env s' = env s
        \<and> files s' (file_b b) = Some (fl\<lparr>f_count := f_count fl + n\<rparr>)"
proof (induction n arbitrary: s fl)
  case 0
  then show ?case by simp
next
  case (Suc n)
  from get_dma_buf_step [OF Suc.prems] obtain s1 where
    g: "get_dma_buf s p = Done s1" and e: "bufs s1 = bufs s" "trace s1 = trace s" "env s1 = env s"
    and f: "files s1 (file_b b) = Some (fl\<lparr>f_count := f_count fl + 1\<rparr>)" by blast
  have b1: "bufs s1 p = Some b" using e Suc.prems by simp
  from Suc.IH [OF b1 f] obtain s' where
    "get_dma_buf_n n s1 p = Done s'" "bufs s' = bufs s1" "trace s' = trace s1" "env s' = env s1"
    "files s' (file_b b) = Some (fl\<lparr>f_count := f_count fl + 1\<rparr>\<lparr>f_count := f_count (fl\<lparr>f_count := f_count fl + 1\<rparr>) + n\<rparr>)"
    by blast
  with g e show ?case by simp
qed

lemma dma_buf_put_step:
  assumes "p \<noteq> 0" "bufs s p = Some b" "file_b b \<noteq> 0" "files s (file_b b) = Some fl" "1 < f_count fl"
  shows "\<exists>s'. dma_buf_put s p = Done s' \<and> bufs s' = bufs s \<and> trace s' = trace s \<and> env s' = env s
            \<and> files s' (file_b b) = Some (fl\<lparr>f_count := f_count fl - 1\<rparr>)"
  using assms by (simp add: dma_buf_put_def fput_def)

lemma dma_buf_put_n_count:
  "p \<noteq> 0 \<Longrightarrow> bufs s p = Some b \<Longrightarrow> file_b b \<noteq> 0 \<Longrightarrow> files s (file_b b) = Some fl \<Longrightarrow>
   k < f_count fl \<Longrightarrow>
   \<exists>s'. dma_buf_put_n k s p = Done s' \<and> bufs s' = bufs s \<and> trace s' = trace s \<and> env s' = env s
        \<and> files s' (file_b b) = Some (fl\<lparr>f_count := f_count fl - k\<rparr>)"
proof (induction k arbitrary: s fl)
  case 0
  then show ?case by simp
next
  case (Suc k)
  have "1 < f_count fl" using Suc.prems by simp
  from dma_buf_put_step [OF Suc.prems(1-4) this] obtain s1 where
    g: "dma_buf_put s p = Done s1" and e: "bufs s1 = bufs s" "trace s1 = trace s" "env s1 = env s"
    and f: "files s1 (file_b b) = Some (fl\<lparr>f_count := f_count fl - 1\<rparr>)" by blast
  have b1: "bufs s1 p = Some b" using e Suc.prems by simp
  have k: "k < f_count (fl\<lparr>f_count := f_count fl - 1\<rparr>)" using Suc.prems by simp
  from Suc.IH [OF Suc.prems(1) b1 Suc.prems(3) f k] obtain s' where
    "dma_buf_put_n k s1 p = Done s'" "bufs s' = bufs s1" "trace s' = trace s1" "env s' = env s1"
    "files s' (file_b b) = Some (fl\<lparr>f_count := f_count fl - 1\<rparr>\<lparr>f_count := f_count (fl\<lparr>f_count := f_count fl - 1\<rparr>) - k\<rparr>)"
    by blast
  with g e show ?case by simp
qed

lemma dma_buf_put_n_Suc_last:
  "dma_buf_put_n (Suc k) s p =
     (case dma_buf_put_n k s p of BUG \<Rightarrow> BUG | Oops \<Rightarrow> Oops | Done s1 \<Rightarrow> dma_buf_put s1 p)"
proof (induction k arbitrary: s)
  case 0
  show ?case by (simp split: outcome.splits)
next
  case (Suc k)
  have "dma_buf_put_n (Suc (Suc k)) s p =
          (case dma_buf_put s p of BUG \<Rightarrow> BUG | Oops \<Rightarrow> Oops | Done s1 \<Rightarrow> dma_buf_put_n (Suc k) s1 p)"
    by (rule dma_buf_put_n.simps(2))
  also have "\<dots> = (case dma_buf_put s p of BUG \<Rightarrow> BUG | Oops \<Rightarrow> Oops | Done s1 \<Rightarrow>
          (case dma_buf_put_n k s1 p of BUG \<Rightarrow> BUG | Oops \<Rightarrow> Oops | Done s2 \<Rightarrow> dma_buf_put s2 p))"
    by (simp only: Suc.IH)
  also have "\<dots> = (case dma_buf_put_n (Suc k) s p of BUG \<Rightarrow> BUG | Oops \<Rightarrow> Oops | Done s1 \<Rightarrow> dma_buf_put s1 p)"
    by (cases "dma_buf_put s p") simp_all
  finally show ?case .
qed

lemma dma_buf_put_last:
  assumes "p \<noteq> 0" "bufs s p = Some b" "file_b b \<noteq> 0" "files s (file_b b) = Some fl"
    "f_count fl = 1" "f_op fl = Dma_buf_fops" "private_data fl = p" "release (ops b) = Some h"
  shows "dma_buf_put s p =
           (if vmapping_counter b \<noteq> 0 then BUG
            else Done (s\<lparr>bufs := (bufs s)(p := None), files := (files s)(file_b b := None),
                         free_mem := free_mem s @ [p, file_b b], env := h p (env s),
                         trace := trace s @ [Ops_release p, Sync_reservation_fini p]\<rparr>))"
  using assms
  by (simp add: dma_buf_put_def fput_def is_dma_buf_file_def dma_buf_release_def Let_def
      call_out_void_def dmabuf_sync_reservation_fini_def note_call_def upd_buf_def kfree_dma_buf_def)

text \<open>
  C2. Take a live buffer whose file holds \<open>c \<ge> 1\<close> references (one right after
  export) and let \<open>n\<close> further references be acquired, so that \<open>N = c + n\<close>
  references have been acquired in all. Of the \<open>N\<close> releases that follow, every proper
  prefix returns and leaves the buffer in place with no call made to the exporter; the
  \<open>N\<close>-th, the final one, calls the exporter's release hook, once, tears down the
  reservation state and frees the buffer and its file. So the buffer is destroyed exactly
  once. If the vmap counter is not zero when the last reference goes, that release hits
  the \<open>BUG_ON\<close>.
\<close>

theorem refcount_round_trip:
  assumes "p \<noteq> 0" and "bufs s p = Some b" and "file_b b \<noteq> 0"
    and "files s (file_b b) = Some fl" and "f_op fl = Dma_buf_fops" and "private_data fl = p"
    and "0 < f_count fl" and "release (ops b) = Some h"
  shows "\<exists>s1. get_dma_buf_n n s p = Done s1
           \<and> (\<forall>k < f_count fl + n. \<exists>sk. dma_buf_put_n k s1 p = Done sk
                   \<and> bufs sk p = Some b \<and> trace sk = trace s \<and> env sk = env s)
           \<and> (vmapping_counter b = 0 \<longrightarrow>
                (\<exists>s'. dma_buf_put_n (f_count fl + n) s1 p = Done s'
                   \<and> trace s' = trace s @ [Ops_release p, Sync_reservation_fini p]
                   \<and> env s' = h p (env s)
                   \<and> bufs s' p = None \<and> files s' (file_b b) = None))
           \<and> (vmapping_counter b \<noteq> 0 \<longrightarrow> dma_buf_put_n (f_count fl + n) s1 p = BUG)"
proof -
  let ?fl1 = "fl\<lparr>f_count := f_count fl + n\<rparr>"
  from get_dma_buf_n_count [OF assms(2) assms(4), of n] obtain s1 where
    g: "get_dma_buf_n n s p = Done s1" and e1: "bufs s1 = bufs s" "trace s1 = trace s" "env s1 = env s"
    and f1: "files s1 (file_b b) = Some ?fl1" by blast
  have b1: "bufs s1 p = Some b" using e1 assms by simp
  have puts: "\<exists>sk. dma_buf_put_n k s1 p = Done sk \<and> bufs sk = bufs s1 \<and> trace sk = trace s1 \<and> env sk = env s1
        \<and> files sk (file_b b) = Some (?fl1\<lparr>f_count := f_count ?fl1 - k\<rparr>)"
    if "k < f_count fl + n" for k
    using dma_buf_put_n_count [OF assms(1) b1 assms(3) f1, of k] that by simp
  obtain m where m: "f_count fl + n = Suc m"
    using assms(7) by (cases "f_count fl + n") simp_all
  from puts [of m] m obtain s2 where
    pm: "dma_buf_put_n m s1 p = Done s2" and e2: "bufs s2 = bufs s1" "trace s2 = trace s1" "env s2 = env s1"
    and f2: "files s2 (file_b b) = Some (?fl1\<lparr>f_count := f_count ?fl1 - m\<rparr>)" by auto
  have b2: "bufs s2 p = Some b" using e2 b1 by simp
  have last: "dma_buf_put s2 p =
           (if vmapping_counter b \<noteq> 0 then BUG
            else Done (s2\<lparr>bufs := (bufs s2)(p := None), files := (files s2)(file_b b := None),
                         free_mem := free_mem s2 @ [p, file_b b], env := h p (env s2),
                         trace := trace s2 @ [Ops_release p, Sync_reservation_fini p]\<rparr>))"
    by (rule dma_buf_put_last [OF assms(1) b2 assms(3) f2]) (use assms m in simp_all)
  have all: "dma_buf_put_n (f_count fl + n) s1 p = dma_buf_put s2 p"
    unfolding m by (subst dma_buf_put_n_Suc_last) (simp only: pm outcome.case)
  have A: "\<forall>k < f_count fl + n. \<exists>sk. dma_buf_put_n k s1 p = Done sk
                   \<and> bufs sk p = Some b \<and> trace sk = trace s \<and> env sk = env s"
  proof (intro allI impI)
    fix k assume "k < f_count fl + n"
    from puts [OF this] show "\<exists>sk. dma_buf_put_n k s1 p = Done sk \<and> bufs sk p = Some b \<and> trace sk = trace s \<and> env sk = env s"
      using e1 b1 by auto
  qed
  have B: "vmapping_counter b = 0 \<longrightarrow>
                (\<exists>s'. dma_buf_put_n (f_count fl + n) s1 p = Done s'
                   \<and> trace s' = trace s @ [Ops_release p, Sync_reservation_fini p]
                   \<and> env s' = h p (env s)
                   \<and> bufs s' p = None \<and> files s' (file_b b) = None)"
    unfolding all last using e1 e2 by simp
  have C: "vmapping_counter b \<noteq> 0 \<longrightarrow> dma_buf_put_n (f_count fl + n) s1 p = BUG"
    unfolding all last by simp
  from g A B C show ?thesis by blast
qed

theorem refcount_round_trip_witness:
  "(\<exists>s1. get_dma_buf_n 2 demo_kernel 0x1000 = Done s1
       \<and> (\<forall>k < 3. \<exists>sk. dma_buf_put_n k s1 0x1000 = Done sk
               \<and> bufs sk 0x1000 = Some demo_buf \<and> trace sk = [] \<and> env sk = 0)
       \<and> (\<exists>s'. dma_buf_put_n 3 s1 0x1000 = Done s'
               \<and> trace s' = [Ops_release 0x1000, Sync_reservation_fini 0x1000]
               \<and> env s' = 0 \<and> bufs s' 0x1000 = None \<and> files s' 0x2000 = None))
   \<and> (\<exists>s1. get_dma_buf_n 2 (demo_kernel\<lparr>bufs := [0x1000 \<mapsto> demo_buf\<lparr>vmap_ptr := 0x5000, vmapping_counter := 1\<rparr>]\<rparr>) 0x1000 = Done s1
       \<and> dma_buf_put_n 3 s1 0x1000 = BUG)"
proof -
  let ?fl = "\<lparr>f_count = 1, f_op = Dma_buf_fops, private_data = 0x1000\<rparr>"
  have n: "f_count ?fl + 2 = 3" by simp
  show ?thesis
  proof (rule conjI)
    show "\<exists>s1. get_dma_buf_n 2 demo_kernel 0x1000 = Done s1
       \<and> (\<forall>k < 3. \<exists>sk. dma_buf_put_n k s1 0x1000 = Done sk
               \<and> bufs sk 0x1000 = Some demo_buf \<and> trace sk = [] \<and> env sk = 0)
       \<and> (\<exists>s'. dma_buf_put_n 3 s1 0x1000 = Done s'
               \<and> trace s' = [Ops_release 0x1000, Sync_reservation_fini 0x1000]
               \<and> env s' = 0 \<and> bufs s' 0x1000 = None \<and> files s' 0x2000 = None)"
      using refcount_round_trip [of "0x1000" demo_kernel demo_buf ?fl "\<lambda>p e. e" 2, unfolded n]
      by (simp add: demo_kernel_def demo_buf_def demo_ops_def
          del: dma_buf_put_n.simps get_dma_buf_n.simps)
    show "\<exists>s1. get_dma_buf_n 2 (demo_kernel\<lparr>bufs := [0x1000 \<mapsto> demo_buf\<lparr>vmap_ptr := 0x5000, vmapping_counter := 1\<rparr>]\<rparr>) 0x1000 = Done s1
       \<and> dma_buf_put_n 3 s1 0x1000 = BUG"
      using refcount_round_trip [of "0x1000" "demo_kernel\<lparr>bufs := [0x1000 \<mapsto> demo_buf\<lparr>vmap_ptr := 0x5000, vmapping_counter := 1\<rparr>]\<rparr>"
          "demo_buf\<lparr>vmap_ptr := 0x5000, vmapping_counter := 1\<rparr>" ?fl "\<lambda>p e. e" 2, unfolded n]
      by (auto simp add: demo_kernel_def demo_buf_def demo_ops_def
          simp del: dma_buf_put_n.simps get_dma_buf_n.simps)
  qed
qed

subsection \<open>Kernel mappings\<close>

lemma dma_buf_vmap_first:
  assumes "p \<noteq> 0" "bufs s p = Some b" "vmap (ops b) = Some h" "vmapping_counter b = 0" "vmap_ptr b = 0"
    "h p (env s) = (q, e')"
  shows "dma_buf_vmap s p =
           Done (q, if IS_ERR_OR_NULL q then s\<lparr>env := e', trace := trace s @ [Ops_vmap p]\<rparr>
                    else s\<lparr>env := e', trace := trace s @ [Ops_vmap p],
                           bufs := (bufs s)(p \<mapsto> b\<lparr>vmap_ptr := q, vmapping_counter := 1\<rparr>)\<rparr>)"
  using assms by (simp add: dma_buf_vmap_def call_out_def upd_buf_def)

lemma dma_buf_vmap_again:
  assumes "p \<noteq> 0" "bufs s p = Some b" "vmap (ops b) = Some h" "vmapping_counter b \<noteq> 0" "vmap_ptr b \<noteq> 0"
  shows "dma_buf_vmap s p =
           Done (vmap_ptr b, s\<lparr>bufs := (bufs s)(p \<mapsto> b\<lparr>vmapping_counter := vmapping_counter b + 1\<rparr>)\<rparr>)"
  using assms by (simp add: dma_buf_vmap_def upd_buf_def)

lemma dma_buf_vmap_absent:
  assumes "bufs s p = Some b" "vmap (ops b) = None"
  shows "dma_buf_vmap s p = Done (0, s)"
  using assms by (simp add: dma_buf_vmap_def)

text \<open>
  C3. For a buffer without vmap hook \<open>dma_buf_vmap\<close> returns null and changes nothing.
  With the hook and no mapping outstanding, the hook is called once; a null or error
  pointer is returned as it is and nothing is cached; any other pointer is cached with
  counter 1, and the next call returns the same pointer with counter 2 and makes no
  call to the exporter. In general, with a mapping outstanding, a call returns the cached
  pointer and increments the counter, and the record of calls and the outside state stay
  as they were.
\<close>

theorem dma_buf_vmap_spec:
  assumes "p \<noteq> 0" and "bufs s p = Some b"
  shows "(vmap (ops b) = None \<longrightarrow> dma_buf_vmap s p = Done (0, s))
       \<and> (\<forall>h q e'. vmap (ops b) = Some h \<and> vmapping_counter b = 0 \<and> vmap_ptr b = 0
              \<and> h p (env s) = (q, e') \<longrightarrow>
            (IS_ERR_OR_NULL q \<longrightarrow>
               dma_buf_vmap s p = Done (q, s\<lparr>env := e', trace := trace s @ [Ops_vmap p]\<rparr>))
          \<and> (\<not> IS_ERR_OR_NULL q \<longrightarrow>
               (\<exists>s1 s2. dma_buf_vmap s p = Done (q, s1)
                  \<and> s1 = s\<lparr>env := e', trace := trace s @ [Ops_vmap p],
                           bufs := (bufs s)(p \<mapsto> b\<lparr>vmap_ptr := q, vmapping_counter := 1\<rparr>)\<rparr>
                  \<and> dma_buf_vmap s1 p = Done (q, s2)
                  \<and> s2 = s1\<lparr>bufs := (bufs s1)(p \<mapsto> b\<lparr>vmap_ptr := q, vmapping_counter := 2\<rparr>)\<rparr>)))
       \<and> (\<forall>h. vmap (ops b) = Some h \<and> vmapping_counter b \<noteq> 0 \<and> vmap_ptr b \<noteq> 0 \<longrightarrow>
            dma_buf_vmap s p =
              Done (vmap_ptr b, s\<lparr>bufs := (bufs s)(p \<mapsto> b\<lparr>vmapping_counter := vmapping_counter b + 1\<rparr>)\<rparr>))"
proof (intro conjI allI impI)
  assume "vmap (ops b) = None"
  with assms show "dma_buf_vmap s p = Done (0, s)" by (simp add: dma_buf_vmap_absent)
next
  fix h q e'
  assume h: "vmap (ops b) = Some h \<and> vmapping_counter b = 0 \<and> vmap_ptr b = 0 \<and> h p (env s) = (q, e')"
  assume "IS_ERR_OR_NULL q"
  with h assms show "dma_buf_vmap s p = Done (q, s\<lparr>env := e', trace := trace s @ [Ops_vmap p]\<rparr>)"
    by (simp add: dma_buf_vmap_first)
next
  fix h q e'
  assume h: "vmap (ops b) = Some h \<and> vmapping_counter b = 0 \<and> vmap_ptr b = 0 \<and> h p (env s) = (q, e')"
  assume q: "\<not> IS_ERR_OR_NULL q"
  let ?b1 = "b\<lparr>vmap_ptr := q, vmapping_counter := 1\<rparr>"
  let ?s1 = "s\<lparr>env := e', trace := trace s @ [Ops_vmap p], bufs := (bufs s)(p \<mapsto> ?b1)\<rparr>"
  have 1: "dma_buf_vmap s p = Done (q, ?s1)"
    using h q assms by (simp add: dma_buf_vmap_first)
  have "q \<noteq> 0" using q by (simp add: IS_ERR_OR_NULL_def)
  then have 2: "dma_buf_vmap ?s1 p = Done (q, ?s1\<lparr>bufs := (bufs ?s1)(p \<mapsto> b\<lparr>vmap_ptr := q, vmapping_counter := 2\<rparr>)\<rparr>)"
    using dma_buf_vmap_again [of p ?s1 ?b1 h] h assms by simp
  from 1 2 show "\<exists>s1 s2. dma_buf_vmap s p = Done (q, s1)
                  \<and> s1 = s\<lparr>env := e', trace := trace s @ [Ops_vmap p],
                           bufs := (bufs s)(p \<mapsto> b\<lparr>vmap_ptr := q, vmapping_counter := 1\<rparr>)\<rparr>
                  \<and> dma_buf_vmap s1 p = Done (q, s2)
                  \<and> s2 = s1\<lparr>bufs := (bufs s1)(p \<mapsto> b\<lparr>vmap_ptr := q, vmapping_counter := 2\<rparr>)\<rparr>"
    by blast
next
  fix h
  assume "vmap (ops b) = Some h \<and> vmapping_counter b \<noteq> 0 \<and> vmap_ptr b \<noteq> 0"
  with assms show "dma_buf_vmap s p =
              Done (vmap_ptr b, s\<lparr>bufs := (bufs s)(p \<mapsto> b\<lparr>vmapping_counter := vmapping_counter b + 1\<rparr>)\<rparr>)"
    by (simp add: dma_buf_vmap_again)
qed

theorem dma_buf_vmap_spec_witness:
  "dma_buf_vmap (demo_kernel\<lparr>bufs := [0x1000 \<mapsto> demo_buf\<lparr>ops := demo_ops\<lparr>vmap := None\<rparr>\<rparr>]\<rparr>) 0x1000
      = Done (0, demo_kernel\<lparr>bufs := [0x1000 \<mapsto> demo_buf\<lparr>ops := demo_ops\<lparr>vmap := None\<rparr>\<rparr>]\<rparr>)
   \<and> dma_buf_vmap (demo_kernel\<lparr>bufs := [0x1000 \<mapsto> demo_buf\<lparr>ops := demo_ops\<lparr>vmap := Some (\<lambda>p e. (0, Suc e))\<rparr>\<rparr>]\<rparr>) 0x1000
      = Done (0, demo_kernel\<lparr>bufs := [0x1000 \<mapsto> demo_buf\<lparr>ops := demo_ops\<lparr>vmap := Some (\<lambda>p e. (0, Suc e))\<rparr>\<rparr>],
                              env := 1, trace := [Ops_vmap 0x1000]\<rparr>)
   \<and> (\<exists>s1 s2. dma_buf_vmap demo_kernel 0x1000 = Done (0x5000, s1)
         \<and> s1 = demo_kernel\<lparr>env := 1, trace := [Ops_vmap 0x1000],
                  bufs := [0x1000 \<mapsto> demo_buf\<lparr>vmap_ptr := 0x5000, vmapping_counter := 1\<rparr>]\<rparr>
         \<and> dma_buf_vmap s1 0x1000 = Done (0x5000, s2)
         \<and> s2 = s1\<lparr>bufs := (bufs s1)(0x1000 \<mapsto> demo_buf\<lparr>vmap_ptr := 0x5000, vmapping_counter := 2\<rparr>)\<rparr>)
   \<and> dma_buf_vmap (demo_kernel\<lparr>bufs := [0x1000 \<mapsto> demo_buf\<lparr>vmap_ptr := 0x5000, vmapping_counter := 7\<rparr>]\<rparr>) 0x1000
      = Done (0x5000, demo_kernel\<lparr>bufs := [0x1000 \<mapsto> demo_buf\<lparr>vmap_ptr := 0x5000, vmapping_counter := 8\<rparr>]\<rparr>)"
  using dma_buf_vmap_spec [of "0x1000" "demo_kernel\<lparr>bufs := [0x1000 \<mapsto> demo_buf\<lparr>ops := demo_ops\<lparr>vmap := None\<rparr>\<rparr>]\<rparr>"
          "demo_buf\<lparr>ops := demo_ops\<lparr>vmap := None\<rparr>\<rparr>"]
    dma_buf_vmap_spec [of "0x1000" "demo_kernel\<lparr>bufs := [0x1000 \<mapsto> demo_buf\<lparr>ops := demo_ops\<lparr>vmap := Some (\<lambda>p e. (0, Suc e))\<rparr>\<rparr>]\<rparr>"
          "demo_buf\<lparr>ops := demo_ops\<lparr>vmap := Some (\<lambda>p e. (0, Suc e))\<rparr>\<rparr>"]
    dma_buf_vmap_spec [of "0x1000" demo_kernel demo_buf]
    dma_buf_vmap_spec [of "0x1000" "demo_kernel\<lparr>bufs := [0x1000 \<mapsto> demo_buf\<lparr>vmap_ptr := 0x5000, vmapping_counter := 7\<rparr>]\<rparr>"
          "demo_buf\<lparr>vmap_ptr := 0x5000, vmapping_counter := 7\<rparr>"]
  by (simp add: demo_kernel_def demo_buf_def demo_ops_def IS_ERR_OR_NULL_def IS_ERR_def)

lemma dma_buf_vunmap_ok:
  assumes "p \<noteq> 0" "bufs s p = Some b" "vmapping_counter b \<noteq> 0" "vmap_ptr b = vaddr" "vaddr \<noteq> 0"
  shows "dma_buf_vunmap s p vaddr =
           (if vmapping_counter b = 1 then
              (case vunmap (ops b) of
                 None \<Rightarrow> Done (s\<lparr>bufs := (bufs s)(p \<mapsto> b\<lparr>vmapping_counter := 0, vmap_ptr := 0\<rparr>)\<rparr>)
               | Some h \<Rightarrow> Done (s\<lparr>bufs := (bufs s)(p \<mapsto> b\<lparr>vmapping_counter := 0, vmap_ptr := 0\<rparr>),
                                   env := h p vaddr (env s), trace := trace s @ [Ops_vunmap p vaddr]\<rparr>))
            else Done (s\<lparr>bufs := (bufs s)(p \<mapsto> b\<lparr>vmapping_counter := vmapping_counter b - 1\<rparr>)\<rparr>))"
  using assms
  by (auto simp: dma_buf_vunmap_def upd_buf_def call_out_void_def Let_def split: option.splits)

lemma dma_buf_vunmap_bug:
  assumes "p \<noteq> 0" "bufs s p = Some b" "vmap_ptr b \<noteq> vaddr \<or> vmapping_counter b = 0"
  shows "dma_buf_vunmap s p vaddr = BUG"
  using assms by (auto simp: dma_buf_vunmap_def)

text \<open>
  C4. With a nonzero counter and the cached (non-null) pointer as argument,
  \<open>dma_buf_vunmap\<close> returns: it decrements the counter, and exactly when the counter
  reaches zero it calls the exporter's vunmap hook, if there is one, and clears the cached
  pointer. With another pointer, or with the counter at zero, it hits a \<open>BUG_ON\<close>.
  After two \<open>dma_buf_vmap\<close> calls on a fresh buffer, the first matching
  \<open>dma_buf_vunmap\<close> makes no call to the exporter and the second makes the one call
  of the vunmap hook.
\<close>

theorem dma_buf_vunmap_spec:
  assumes "p \<noteq> 0" and "bufs s p = Some b"
  shows "(vmapping_counter b \<noteq> 0 \<and> vmap_ptr b = vaddr \<and> vaddr \<noteq> 0 \<longrightarrow>
            (vmapping_counter b \<noteq> 1 \<longrightarrow>
               dma_buf_vunmap s p vaddr =
                 Done (s\<lparr>bufs := (bufs s)(p \<mapsto> b\<lparr>vmapping_counter := vmapping_counter b - 1\<rparr>)\<rparr>))
          \<and> (vmapping_counter b = 1 \<and> vunmap (ops b) = None \<longrightarrow>
               dma_buf_vunmap s p vaddr =
                 Done (s\<lparr>bufs := (bufs s)(p \<mapsto> b\<lparr>vmapping_counter := 0, vmap_ptr := 0\<rparr>)\<rparr>))
          \<and> (\<forall>h. vmapping_counter b = 1 \<and> vunmap (ops b) = Some h \<longrightarrow>
               dma_buf_vunmap s p vaddr =
                 Done (s\<lparr>bufs := (bufs s)(p \<mapsto> b\<lparr>vmapping_counter := 0, vmap_ptr := 0\<rparr>),
                         env := h p vaddr (env s), trace := trace s @ [Ops_vunmap p vaddr]\<rparr>)))
       \<and> (vmap_ptr b \<noteq> vaddr \<or> vmapping_counter b = 0 \<longrightarrow> dma_buf_vunmap s p vaddr = BUG)
       \<and> (\<forall>hv hu q e'. vmap (ops b) = Some hv \<and> vunmap (ops b) = Some hu
              \<and> vmapping_counter b = 0 \<and> vmap_ptr b = 0
              \<and> hv p (env s) = (q, e') \<and> \<not> IS_ERR_OR_NULL q \<longrightarrow>
            (\<exists>s1 s2 s3 s4 b4.
                 dma_buf_vmap s p = Done (q, s1) \<and> dma_buf_vmap s1 p = Done (q, s2)
               \<and> dma_buf_vunmap s2 p q = Done s3
               \<and> trace s3 = trace s @ [Ops_vmap p] \<and> env s3 = e'
               \<and> dma_buf_vunmap s3 p q = Done s4
               \<and> trace s4 = trace s @ [Ops_vmap p, Ops_vunmap p q] \<and> env s4 = hu p q e'
               \<and> bufs s4 p = Some b4 \<and> vmapping_counter b4 = 0 \<and> vmap_ptr b4 = 0))"
proof (intro conjI allI impI)
  assume pre: "vmapping_counter b \<noteq> 0 \<and> vmap_ptr b = vaddr \<and> vaddr \<noteq> 0"
  { assume "vmapping_counter b \<noteq> 1"
    with pre assms show "dma_buf_vunmap s p vaddr =
           Done (s\<lparr>bufs := (bufs s)(p \<mapsto> b\<lparr>vmapping_counter := vmapping_counter b - 1\<rparr>)\<rparr>)"
      by (simp add: dma_buf_vunmap_ok) }
  { assume "vmapping_counter b = 1 \<and> vunmap (ops b) = None"
    with pre assms show "dma_buf_vunmap s p vaddr =
           Done (s\<lparr>bufs := (bufs s)(p \<mapsto> b\<lparr>vmapping_counter := 0, vmap_ptr := 0\<rparr>)\<rparr>)"
      by (simp add: dma_buf_vunmap_ok) }
  { fix h assume "vmapping_counter b = 1 \<and> vunmap (ops b) = Some h"
    with pre assms show "dma_buf_vunmap s p vaddr =
           Done (s\<lparr>bufs := (bufs s)(p \<mapsto> b\<lparr>vmapping_counter := 0, vmap_ptr := 0\<rparr>),
                   env := h p vaddr (env s), trace := trace s @ [Ops_vunmap p vaddr]\<rparr>)"
      by (simp add: dma_buf_vunmap_ok) }
next
  assume "vmap_ptr b \<noteq> vaddr \<or> vmapping_counter b = 0"
  with assms show "dma_buf_vunmap s p vaddr = BUG" by (rule dma_buf_vunmap_bug)
next
  fix hv hu q e'
  assume h: "vmap (ops b) = Some hv \<and> vunmap (ops b) = Some hu
              \<and> vmapping_counter b = 0 \<and> vmap_ptr b = 0
              \<and> hv p (env s) = (q, e') \<and> \<not> IS_ERR_OR_NULL q"
  then have q: "q \<noteq> 0" by (simp add: IS_ERR_OR_NULL_def)
  let ?b1 = "b\<lparr>vmap_ptr := q, vmapping_counter := 1\<rparr>"
  let ?s1 = "s\<lparr>env := e', trace := trace s @ [Ops_vmap p], bufs := (bufs s)(p \<mapsto> ?b1)\<rparr>"
  let ?b2 = "b\<lparr>vmap_ptr := q, vmapping_counter := 2\<rparr>"
  let ?s2 = "?s1\<lparr>bufs := (bufs ?s1)(p \<mapsto> ?b2)\<rparr>"
  let ?b3 = "b\<lparr>vmap_ptr := q, vmapping_counter := 1\<rparr>"
  let ?s3 = "?s2\<lparr>bufs := (bufs ?s2)(p \<mapsto> ?b3)\<rparr>"
  let ?b4 = "b\<lparr>vmapping_counter := 0, vmap_ptr := 0\<rparr>"
  let ?s4 = "?s3\<lparr>bufs := (bufs ?s3)(p \<mapsto> ?b4), env := hu p q (env ?s3),
                  trace := trace ?s3 @ [Ops_vunmap p q]\<rparr>"
  have 1: "dma_buf_vmap s p = Done (q, ?s1)"
    using h assms by (simp add: dma_buf_vmap_first)
  have 2: "dma_buf_vmap ?s1 p = Done (q, ?s2)"
    using dma_buf_vmap_again [of p ?s1 ?b1 hv] h q assms by simp
  have 3: "dma_buf_vunmap ?s2 p q = Done ?s3"
    using dma_buf_vunmap_ok [of p ?s2 ?b2 q] h q assms by simp
  have 4: "dma_buf_vunmap ?s3 p q = Done ?s4"
    using dma_buf_vunmap_ok [of p ?s3 ?b3 q] h q assms by simp
  have 5: "trace ?s3 = trace s @ [Ops_vmap p]" "env ?s3 = e'"
    "trace ?s4 = trace s @ [Ops_vmap p, Ops_vunmap p q]" "env ?s4 = hu p q e'"
    "bufs ?s4 p = Some ?b4" "vmapping_counter ?b4 = 0" "vmap_ptr ?b4 = 0"
    by simp_all
  from 1 2 3 4 5 show "\<exists>s1 s2 s3 s4 b4.
                 dma_buf_vmap s p = Done (q, s1) \<and> dma_buf_vmap s1 p = Done (q, s2)
               \<and> dma_buf_vunmap s2 p q = Done s3
               \<and> trace s3 = trace s @ [Ops_vmap p] \<and> env s3 = e'
               \<and> dma_buf_vunmap s3 p q = Done s4
               \<and> trace s4 = trace s @ [Ops_vmap p, Ops_vunmap p q] \<and> env s4 = hu p q e'
               \<and> bufs s4 p = Some b4 \<and> vmapping_counter b4 = 0 \<and> vmap_ptr b4 = 0"
    by blast
qed

theorem dma_buf_vunmap_spec_witness:
  "dma_buf_vunmap (demo_kernel\<lparr>bufs := [0x1000 \<mapsto> demo_buf\<lparr>vmap_ptr := 0x5000, vmapping_counter := 2\<rparr>]\<rparr>) 0x1000 0x5000
     = Done (demo_kernel\<lparr>bufs := [0x1000 \<mapsto> demo_buf\<lparr>vmap_ptr := 0x5000, vmapping_counter := 1\<rparr>]\<rparr>)
   \<and> dma_buf_vunmap (demo_kernel\<lparr>bufs := [0x1000 \<mapsto> demo_buf\<lparr>ops := demo_ops\<lparr>vunmap := None\<rparr>, vmap_ptr := 0x5000, vmapping_counter := 1\<rparr>]\<rparr>) 0x1000 0x5000
     = Done (demo_kernel\<lparr>bufs := [0x1000 \<mapsto> demo_buf\<lparr>ops := demo_ops\<lparr>vunmap := None\<rparr>\<rparr>]\<rparr>)
   \<and> dma_buf_vunmap (demo_kernel\<lparr>bufs := [0x1000 \<mapsto> demo_buf\<lparr>vmap_ptr := 0x5000, vmapping_counter := 1\<rparr>]\<rparr>) 0x1000 0x5000
     = Done (demo_kernel\<lparr>trace := [Ops_vunmap 0x1000 0x5000]\<rparr>)
   \<and> dma_buf_vunmap (demo_kernel\<lparr>bufs := [0x1000 \<mapsto> demo_buf\<lparr>vmap_ptr := 0x5000, vmapping_counter := 1\<rparr>]\<rparr>) 0x1000 0x6000 = BUG
   \<and> dma_buf_vunmap demo_kernel 0x1000 0 = BUG
   \<and> (\<exists>s1 s2 s3 s4 b4.
          dma_buf_vmap demo_kernel 0x1000 = Done (0x5000, s1) \<and> dma_buf_vmap s1 0x1000 = Done (0x5000, s2)
        \<and> dma_buf_vunmap s2 0x1000 0x5000 = Done s3
        \<and> trace s3 = [Ops_vmap 0x1000] \<and> env s3 = 1
        \<and> dma_buf_vunmap s3 0x1000 0x5000 = Done s4
        \<and> trace s4 = [Ops_vmap 0x1000, Ops_vunmap 0x1000 0x5000] \<and> env s4 = 1
        \<and> bufs s4 0x1000 = Some b4 \<and> vmapping_counter b4 = 0 \<and> vmap_ptr b4 = 0)"
  using dma_buf_vunmap_spec [of "0x1000" "demo_kernel\<lparr>bufs := [0x1000 \<mapsto> demo_buf\<lparr>vmap_ptr := 0x5000, vmapping_counter := 2\<rparr>]\<rparr>"
          "demo_buf\<lparr>vmap_ptr := 0x5000, vmapping_counter := 2\<rparr>" "0x5000"]
    dma_buf_vunmap_spec [of "0x1000" "demo_kernel\<lparr>bufs := [0x1000 \<mapsto> demo_buf\<lparr>ops := demo_ops\<lparr>vunmap := None\<rparr>, vmap_ptr := 0x5000, vmapping_counter := 1\<rparr>]\<rparr>"
          "demo_buf\<lparr>ops := demo_ops\<lparr>vunmap := None\<rparr>, vmap_ptr := 0x5000, vmapping_counter := 1\<rparr>" "0x5000"]
    dma_buf_vunmap_spec [of "0x1000" "demo_kernel\<lparr>bufs := [0x1000 \<mapsto> demo_buf\<lparr>vmap_ptr := 0x5000, vmapping_counter := 1\<rparr>]\<rparr>"
          "demo_buf\<lparr>vmap_ptr := 0x5000, vmapping_counter := 1\<rparr>" "0x5000"]
    dma_buf_vunmap_spec [of "0x1000" "demo_kernel\<lparr>bufs := [0x1000 \<mapsto> demo_buf\<lparr>vmap_ptr := 0x5000, vmapping_counter := 1\<rparr>]\<rparr>"
          "demo_buf\<lparr>vmap_ptr := 0x5000, vmapping_counter := 1\<rparr>" "0x6000"]
    dma_buf_vunmap_spec [of "0x1000" demo_kernel demo_buf 0]
  by (simp add: demo_kernel_def demo_buf_def demo_ops_def IS_ERR_OR_NULL_def IS_ERR_def)

subsection \<open>Userspace mapping\<close>

lemma mmap_wraps_iff:
  fixes a n :: ulong
  shows "(a + n < a) = (2 ^ 32 \<le> unat a + unat n)"
proof -
  have "(a \<le> a + n) = (unat a + unat n < 2 ^ 32)"
    using no_olen_add_nat [of a n] by simp
  then show ?thesis by (simp add: not_le [symmetric])
qed

lemma mmap_exceeds_iff:
  fixes a n sz :: ulong
  assumes "unat a + unat n < 2 ^ 32"
  shows "(a + n > drop_bit PAGE_SHIFT sz) = (unat sz div 4096 < unat a + unat n)"
proof -
  have "unat (a + n) = unat a + unat n"
    using assms by (simp add: unat_add_lem [THEN iffD1])
  moreover have "unat (drop_bit PAGE_SHIFT sz) = unat sz div 4096"
    by (simp add: PAGE_SHIFT_def unat_drop_bit_eq) (simp add: drop_bit_eq_div)
  ultimately show ?thesis by (simp add: word_less_nat_alt)
qed

lemma unat_vma_pages: "unat (vma_pages v) = unat (vm_end v - vm_start v) div 4096"
  by (simp add: vma_pages_def PAGE_SHIFT_def unat_drop_bit_eq) (simp add: drop_bit_eq_div)

lemma size_pages_bound: "unat (sz :: ulong) div 4096 < 2 ^ 32"
proof -
  have "unat sz < 2 ^ 32" using unsigned_less [of sz, where 'a = nat] by simp
  then show ?thesis by (simp add: le_less_trans [OF div_le_dividend])
qed

text \<open>
  C5. \<open>dma_buf_mmap\<close> on a buffer and a region of \<open>n\<close> pages
  (\<open>n = (vm_end - vm_start) >> PAGE_SHIFT\<close>): when the page offset plus \<open>n\<close> does not
  fit in an \<open>unsigned long\<close> the call returns \<open>-EOVERFLOW\<close>; when it fits and exceeds
  the buffer's size in pages the call returns \<open>-EINVAL\<close>; in both cases the region and
  the kernel state are as before. Otherwise the region's old file reference is dropped,
  the region is bound to the buffer's file, on which a reference is taken, its page
  offset is set, and the exporter's mmap hook is called once on that region; the call
  returns what the hook returns. (The last part is stated for a drop of the old
  reference that returns and leaves the buffer in place.)
\<close>

theorem dma_buf_mmap_spec:
  assumes "p \<noteq> 0" and "bufs s p = Some b"
  shows "(2 ^ 32 \<le> unat pgoff + unat (vma_pages v) \<longrightarrow>
            dma_buf_mmap s p (Some v) pgoff = Done (- EOVERFLOW, Some v, s))
       \<and> (unat pgoff + unat (vma_pages v) < 2 ^ 32
            \<and> unat (size_b b) div 4096 < unat pgoff + unat (vma_pages v) \<longrightarrow>
            dma_buf_mmap s p (Some v) pgoff = Done (- EINVAL, Some v, s))
       \<and> (unat pgoff + unat (vma_pages v) \<le> unat (size_b b) div 4096 \<longrightarrow>
            (\<forall>s1 fl h ret v' e'.
               (if vm_file v \<noteq> 0 then fput s (vm_file v) else Done s) = Done s1
               \<and> bufs s1 p = Some b \<and> files s1 (file_b b) = Some fl
               \<and> mmap (ops b) = Some h
               \<and> h p (v\<lparr>vm_file := file_b b, vm_pgoff := pgoff\<rparr>) (env s1) = ((ret, v'), e') \<longrightarrow>
               dma_buf_mmap s p (Some v) pgoff =
                 Done (ret, Some v',
                       s1\<lparr>files := (files s1)(file_b b \<mapsto> fl\<lparr>f_count := f_count fl + 1\<rparr>),
                          env := e', trace := trace s1 @ [Ops_mmap p]\<rparr>)))
       \<and> unat (vma_pages v) = unat (vm_end v - vm_start v) div 4096"
proof (intro conjI allI impI)
  assume "2 ^ 32 \<le> unat pgoff + unat (vma_pages v)"
  then have "pgoff + vma_pages v < pgoff" by (simp add: mmap_wraps_iff)
  with assms show "dma_buf_mmap s p (Some v) pgoff = Done (- EOVERFLOW, Some v, s)"
    by (simp add: dma_buf_mmap_def)
next
  assume a: "unat pgoff + unat (vma_pages v) < 2 ^ 32
            \<and> unat (size_b b) div 4096 < unat pgoff + unat (vma_pages v)"
  then have "\<not> pgoff + vma_pages v < pgoff" by (simp add: mmap_wraps_iff)
  moreover from a have "pgoff + vma_pages v > drop_bit PAGE_SHIFT (size_b b)"
    by (simp add: mmap_exceeds_iff)
  ultimately show "dma_buf_mmap s p (Some v) pgoff = Done (- EINVAL, Some v, s)"
    using assms by (simp add: dma_buf_mmap_def)
next
  fix s1 fl h ret v' e'
  assume le: "unat pgoff + unat (vma_pages v) \<le> unat (size_b b) div 4096"
  assume h: "(if vm_file v \<noteq> 0 then fput s (vm_file v) else Done s) = Done s1
               \<and> bufs s1 p = Some b \<and> files s1 (file_b b) = Some fl
               \<and> mmap (ops b) = Some h
               \<and> h p (v\<lparr>vm_file := file_b b, vm_pgoff := pgoff\<rparr>) (env s1) = ((ret, v'), e')"
  from le have lt: "unat pgoff + unat (vma_pages v) < 2 ^ 32"
    using size_pages_bound [of "size_b b"] by linarith
  then have 1: "\<not> pgoff + vma_pages v < pgoff" by (simp add: mmap_wraps_iff)
  from le lt have 2: "\<not> pgoff + vma_pages v > drop_bit PAGE_SHIFT (size_b b)"
    by (simp add: mmap_exceeds_iff)
  from h have 3: "(if vm_file v \<noteq> 0 then fput s (vm_file v) else Done s) = Done s1" by simp
  show "dma_buf_mmap s p (Some v) pgoff =
                 Done (ret, Some v',
                       s1\<lparr>files := (files s1)(file_b b \<mapsto> fl\<lparr>f_count := f_count fl + 1\<rparr>),
                          env := e', trace := trace s1 @ [Ops_mmap p]\<rparr>)"
    unfolding dma_buf_mmap_def using assms 1 2 h
    by (simp add: 3 get_file_def call_out_def del: One_nat_def)
next
  show "unat (vma_pages v) = unat (vm_end v - vm_start v) div 4096" by (rule unat_vma_pages)
qed


theorem dma_buf_mmap_spec_witness:
  "dma_buf_mmap demo_kernel 0x1000 (Some \<lparr>vm_start = 0x10000, vm_end = 0x12000, vm_pgoff = 9, vm_file = 0\<rparr>) 0xFFFFFFFF
     = Done (- EOVERFLOW, Some \<lparr>vm_start = 0x10000, vm_end = 0x12000, vm_pgoff = 9, vm_file = 0\<rparr>, demo_kernel)
   \<and> dma_buf_mmap demo_kernel 0x1000 (Some \<lparr>vm_start = 0x10000, vm_end = 0x12000, vm_pgoff = 9, vm_file = 0\<rparr>) 3
     = Done (- EINVAL, Some \<lparr>vm_start = 0x10000, vm_end = 0x12000, vm_pgoff = 9, vm_file = 0\<rparr>, demo_kernel)
   \<and> dma_buf_mmap demo_kernel 0x1000 (Some \<lparr>vm_start = 0x10000, vm_end = 0x12000, vm_pgoff = 9, vm_file = 0\<rparr>) 2
     = Done (0, Some \<lparr>vm_start = 0x10000, vm_end = 0x12000, vm_pgoff = 2, vm_file = 0x2000\<rparr>,
             demo_kernel\<lparr>files := [0x2000 \<mapsto> \<lparr>f_count = 2, f_op = Dma_buf_fops, private_data = 0x1000\<rparr>],
                          trace := [Ops_mmap 0x1000]\<rparr>)"
proof -
  let ?v = "\<lparr>vm_start = 0x10000, vm_end = 0x12000, vm_pgoff = 9, vm_file = 0\<rparr> :: vm_area_struct"
  have pages: "unat (vma_pages ?v) = 2"
    by (simp add: vma_pages_def PAGE_SHIFT_def drop_bit_eq_div)
  have sz: "unat (size_b demo_buf) div 4096 = 4"
    by (simp add: demo_buf_def)
  have b: "(0x1000 :: ptr) \<noteq> 0" "bufs demo_kernel 0x1000 = Some demo_buf"
    by (simp_all add: demo_kernel_def)
  note T = dma_buf_mmap_spec [OF b, of _ ?v, unfolded pages sz]
  have 1: "dma_buf_mmap demo_kernel 0x1000 (Some ?v) 0xFFFFFFFF = Done (- EOVERFLOW, Some ?v, demo_kernel)"
    using T [of "0xFFFFFFFF"] by simp
  have 2: "dma_buf_mmap demo_kernel 0x1000 (Some ?v) 3 = Done (- EINVAL, Some ?v, demo_kernel)"
    using T [of 3] by simp
  let ?fl = "\<lparr>f_count = 1, f_op = Dma_buf_fops, private_data = 0x1000\<rparr>"
  let ?h = "\<lambda>(p::ptr) (v::vm_area_struct) (e::nat). ((0::int, v), e)"
  let ?v' = "\<lparr>vm_start = 0x10000, vm_end = 0x12000, vm_pgoff = 2, vm_file = 0x2000\<rparr> :: vm_area_struct"
  have le: "unat (2::ulong) + 2 \<le> 4" by simp
  have h3: "(if vm_file ?v \<noteq> 0 then fput demo_kernel (vm_file ?v) else Done demo_kernel) = Done demo_kernel
      \<and> bufs demo_kernel 0x1000 = Some demo_buf \<and> files demo_kernel (file_b demo_buf) = Some ?fl
      \<and> mmap (ops demo_buf) = Some ?h
      \<and> ?h 0x1000 (?v\<lparr>vm_file := file_b demo_buf, vm_pgoff := 2\<rparr>) (env demo_kernel) = ((0, ?v'), 0)"
    by (simp add: demo_kernel_def demo_buf_def demo_ops_def)
  have 3: "dma_buf_mmap demo_kernel 0x1000 (Some ?v) 2
     = Done (0, Some ?v',
             demo_kernel\<lparr>files := [0x2000 \<mapsto> \<lparr>f_count = 2, f_op = Dma_buf_fops, private_data = 0x1000\<rparr>],
                          trace := [Ops_mmap 0x1000]\<rparr>)"
    using T [of 2, THEN conjunct2, THEN conjunct2, THEN conjunct1, rule_format, OF le h3]
    by (simp add: demo_kernel_def demo_buf_def numeral_2_eq_2)
  from 1 2 3 show ?thesis by simp
qed

subsection \<open>Poll\<close>

lemma dma_buf_poll_cases:
  assumes "files s filp = Some f" "f_op f = Dma_buf_fops" "private_data f = p" "p \<noteq> 0"
    "bufs s p = Some b" "sync b = Some r"
  shows "dma_buf_poll s filp pt =
           (if poll_event r then
              Done (POLLIN OR POLLOUT,
                    s\<lparr>bufs := (bufs s)(p \<mapsto> b\<lparr>sync := Some (r\<lparr>polled := True, poll_event := False\<rparr>)\<rparr>)\<rparr>)
            else if \<not> locked r then
              Done (POLLERR, s\<lparr>bufs := (bufs s)(p \<mapsto> b\<lparr>sync := Some (r\<lparr>polled := True\<rparr>)\<rparr>)\<rparr>)
            else
              Done (0, s\<lparr>bufs := (bufs s)(p \<mapsto> b\<lparr>sync := Some (r\<lparr>polled := True,
                                                                       poll_wait := poll_wait r @ [pt]\<rparr>)\<rparr>)\<rparr>))"
  using assms
  by (simp add: dma_buf_poll_def is_dma_buf_file_def upd_buf_def poll_wait_add_def Let_def)

lemma dmabuf_sync_single_unlock_eq:
  assumes "bufs s p = Some b" "sync b = Some r"
  shows "dmabuf_sync_single_unlock p s =
           s\<lparr>trace := trace s @ [Sync_single_unlock p],
              bufs := (bufs s)(p \<mapsto> b\<lparr>sync := Some (r\<lparr>locked := False, poll_event := True, poll_wait := []\<rparr>)\<rparr>)\<rparr>"
  using assms by (simp add: dmabuf_sync_single_unlock_def upd_buf_def note_call_def)

text \<open>
  C6. \<open>dma_buf_poll\<close> on the file of a buffer with reservation state: with the poll
  event set it clears it and returns \<open>POLLIN | POLLOUT\<close>; with no event and the buffer
  unlocked it returns \<open>POLLERR\<close>; with no event and the buffer locked it puts the
  caller's poll table on the wait queue and returns 0. In each case it marks the
  reservation state as polled. After an unlock the first poll returns
  \<open>POLLIN | POLLOUT\<close> and leaves the buffer unlocked with no event, and the poll after
  it returns \<open>POLLERR\<close>: ready is reported once.
\<close>

theorem dma_buf_poll_spec:
  assumes "files s filp = Some f" and "f_op f = Dma_buf_fops" and "private_data f = p" and "p \<noteq> 0"
    and "bufs s p = Some b" and "sync b = Some r"
  shows "(poll_event r \<longrightarrow>
            dma_buf_poll s filp pt =
              Done (POLLIN OR POLLOUT,
                    s\<lparr>bufs := (bufs s)(p \<mapsto> b\<lparr>sync := Some (r\<lparr>polled := True, poll_event := False\<rparr>)\<rparr>)\<rparr>))
       \<and> (\<not> poll_event r \<and> \<not> locked r \<longrightarrow>
            dma_buf_poll s filp pt =
              Done (POLLERR, s\<lparr>bufs := (bufs s)(p \<mapsto> b\<lparr>sync := Some (r\<lparr>polled := True\<rparr>)\<rparr>)\<rparr>))
       \<and> (\<not> poll_event r \<and> locked r \<longrightarrow>
            dma_buf_poll s filp pt =
              Done (0, s\<lparr>bufs := (bufs s)(p \<mapsto> b\<lparr>sync := Some (r\<lparr>polled := True,
                                                                       poll_wait := poll_wait r @ [pt]\<rparr>)\<rparr>)\<rparr>))
       \<and> (\<exists>s1 s2 b1 r1. dma_buf_poll (dmabuf_sync_single_unlock p s) filp pt = Done (POLLIN OR POLLOUT, s1)
              \<and> bufs s1 p = Some b1 \<and> sync b1 = Some r1 \<and> \<not> poll_event r1 \<and> \<not> locked r1
              \<and> dma_buf_poll s1 filp pt = Done (POLLERR, s2)
              \<and> bufs s2 p = Some b1)
       \<and> POLLIN OR POLLOUT \<noteq> POLLERR \<and> POLLIN OR POLLOUT \<noteq> 0"
proof -
  let ?r0 = "r\<lparr>locked := False, poll_event := True, poll_wait := []\<rparr>"
  let ?b0 = "b\<lparr>sync := Some ?r0\<rparr>"
  let ?s0 = "s\<lparr>trace := trace s @ [Sync_single_unlock p], bufs := (bufs s)(p \<mapsto> ?b0)\<rparr>"
  let ?r1 = "?r0\<lparr>polled := True, poll_event := False\<rparr>"
  let ?b1 = "?b0\<lparr>sync := Some ?r1\<rparr>"
  let ?s1 = "?s0\<lparr>bufs := (bufs ?s0)(p \<mapsto> ?b1)\<rparr>"
  let ?s2 = "?s1\<lparr>bufs := (bufs ?s1)(p \<mapsto> ?b1\<lparr>sync := Some (?r1\<lparr>polled := True\<rparr>)\<rparr>)\<rparr>"
  have u: "dmabuf_sync_single_unlock p s = ?s0"
    using assms by (simp add: dmabuf_sync_single_unlock_eq)
  have p1: "dma_buf_poll ?s0 filp pt = Done (POLLIN OR POLLOUT, ?s1)"
    using dma_buf_poll_cases [of ?s0 filp f p ?b0 ?r0 pt] assms by simp
  have p2: "dma_buf_poll ?s1 filp pt = Done (POLLERR, ?s2)"
    using dma_buf_poll_cases [of ?s1 filp f p ?b1 ?r1 pt] assms by simp
  have e: "bufs ?s1 p = Some ?b1" "sync ?b1 = Some ?r1" "\<not> poll_event ?r1" "\<not> locked ?r1"
    "bufs ?s2 p = Some ?b1"
    by simp_all
  have D: "\<exists>s1 s2 b1 r1. dma_buf_poll (dmabuf_sync_single_unlock p s) filp pt = Done (POLLIN OR POLLOUT, s1)
              \<and> bufs s1 p = Some b1 \<and> sync b1 = Some r1 \<and> \<not> poll_event r1 \<and> \<not> locked r1
              \<and> dma_buf_poll s1 filp pt = Done (POLLERR, s2)
              \<and> bufs s2 p = Some b1"
    unfolding u using p1 p2 e by blast
  have A: "dma_buf_poll s filp pt =
           (if poll_event r then
              Done (POLLIN OR POLLOUT,
                    s\<lparr>bufs := (bufs s)(p \<mapsto> b\<lparr>sync := Some (r\<lparr>polled := True, poll_event := False\<rparr>)\<rparr>)\<rparr>)
            else if \<not> locked r then
              Done (POLLERR, s\<lparr>bufs := (bufs s)(p \<mapsto> b\<lparr>sync := Some (r\<lparr>polled := True\<rparr>)\<rparr>)\<rparr>)
            else
              Done (0, s\<lparr>bufs := (bufs s)(p \<mapsto> b\<lparr>sync := Some (r\<lparr>polled := True,
                                                                       poll_wait := poll_wait r @ [pt]\<rparr>)\<rparr>)\<rparr>))"
    using assms by (rule dma_buf_poll_cases)
  have E: "POLLIN OR POLLOUT \<noteq> POLLERR \<and> POLLIN OR POLLOUT \<noteq> 0"
    by (simp add: POLLIN_def POLLOUT_def POLLERR_def)
  from A D E show ?thesis by simp
qed

theorem dma_buf_poll_spec_witness:
  "dma_buf_poll (demo_kernel_with \<lparr>locked = True, polled = False, poll_event = True, poll_wait = []\<rparr>) 0x2000 0xB000
     = Done (POLLIN OR POLLOUT,
             demo_kernel_with \<lparr>locked = True, polled = True, poll_event = False, poll_wait = []\<rparr>)
   \<and> dma_buf_poll (demo_kernel_with \<lparr>locked = False, polled = False, poll_event = False, poll_wait = []\<rparr>) 0x2000 0xB000
     = Done (POLLERR,
             demo_kernel_with \<lparr>locked = False, polled = True, poll_event = False, poll_wait = []\<rparr>)
   \<and> dma_buf_poll (demo_kernel_with \<lparr>locked = True, polled = False, poll_event = False, poll_wait = []\<rparr>) 0x2000 0xB000
     = Done (0, demo_kernel_with \<lparr>locked = True, polled = True, poll_event = False, poll_wait = [0xB000]\<rparr>)
   \<and> (\<exists>s1 s2 b1 r1.
         dma_buf_poll (dmabuf_sync_single_unlock 0x1000
                         (demo_kernel_with \<lparr>locked = True, polled = False, poll_event = False, poll_wait = []\<rparr>))
                      0x2000 0xB000 = Done (POLLIN OR POLLOUT, s1)
       \<and> bufs s1 0x1000 = Some b1 \<and> sync b1 = Some r1 \<and> \<not> poll_event r1 \<and> \<not> locked r1
       \<and> dma_buf_poll s1 0x2000 0xB000 = Done (POLLERR, s2)
       \<and> bufs s2 0x1000 = Some b1)"
proof -
  let ?f = "\<lparr>f_count = 1, f_op = Dma_buf_fops, private_data = 0x1000\<rparr>"
  have pre: "files (demo_kernel_with r) 0x2000 = Some ?f" "f_op ?f = Dma_buf_fops"
    "private_data ?f = 0x1000" "(0x1000 :: ptr) \<noteq> 0"
    "bufs (demo_kernel_with r) 0x1000 = Some (demo_buf\<lparr>sync := Some r\<rparr>)"
    "sync (demo_buf\<lparr>sync := Some r\<rparr>) = Some r" for r
    by (simp_all add: demo_kernel_with_def demo_kernel_def)
  note T = dma_buf_poll_spec [OF pre, of _ "0xB000"]
  have 1: "dma_buf_poll (demo_kernel_with \<lparr>locked = True, polled = False, poll_event = True, poll_wait = []\<rparr>) 0x2000 0xB000
     = Done (POLLIN OR POLLOUT,
             demo_kernel_with \<lparr>locked = True, polled = True, poll_event = False, poll_wait = []\<rparr>)"
    using T [of "\<lparr>locked = True, polled = False, poll_event = True, poll_wait = []\<rparr>"]
    by (simp add: demo_kernel_with_def)
  have 2: "dma_buf_poll (demo_kernel_with \<lparr>locked = False, polled = False, poll_event = False, poll_wait = []\<rparr>) 0x2000 0xB000
     = Done (POLLERR,
             demo_kernel_with \<lparr>locked = False, polled = True, poll_event = False, poll_wait = []\<rparr>)"
    using T [of "\<lparr>locked = False, polled = False, poll_event = False, poll_wait = []\<rparr>"]
    by (simp add: demo_kernel_with_def)
  have 3: "dma_buf_poll (demo_kernel_with \<lparr>locked = True, polled = False, poll_event = False, poll_wait = []\<rparr>) 0x2000 0xB000
     = Done (0, demo_kernel_with \<lparr>locked = True, polled = True, poll_event = False, poll_wait = [0xB000]\<rparr>)"
    using T [of "\<lparr>locked = True, polled = False, poll_event = False, poll_wait = []\<rparr>"]
    by (simp add: demo_kernel_with_def)
  note 4 = T [of "\<lparr>locked = True, polled = False, poll_event = False, poll_wait = []\<rparr>",
              THEN conjunct2, THEN conjunct2, THEN conjunct2, THEN conjunct1]
  from 1 2 3 4 show ?thesis by (intro conjI)
qed

subsection \<open>Attach\<close>

text \<open>
  C7, as amended. \<open>dma_buf_attach\<close> with a buffer and a device that are not null: when
  no memory is left for the record it returns the error pointer of \<open>ENOMEM\<close> and the
  state is as before. When the record is allocated: without attach hook the record,
  holding the buffer and the device, is put at the head of the buffer's list and
  returned; with a hook that returns a nonzero status the record is freed, the status
  is returned as an error pointer and the buffer, its list included, is as before; with
  a hook that returns 0 the record, holding also what the hook left in it, is put at the
  head of the list and returned.
\<close>

theorem dma_buf_attach_spec:
  assumes "p \<noteq> 0" and "d \<noteq> 0" and "bufs s p = Some b"
  shows "(free_mem s = [] \<longrightarrow> dma_buf_attach s p d = Done (ERR_PTR (- ENOMEM), s))
       \<and> (\<forall>a rest. free_mem s = a # rest \<and> a \<noteq> 0 \<longrightarrow>
            (attach (ops b) = None \<longrightarrow>
               dma_buf_attach s p d =
                 Done (a, s\<lparr>free_mem := rest,
                            attachs := (attachs s)(a \<mapsto> \<lparr>dmabuf = p, dev = d, priv_att = 0\<rparr>),
                            bufs := (bufs s)(p \<mapsto> b\<lparr>attachments := a # attachments b\<rparr>)\<rparr>))
          \<and> (\<forall>h ret pa e'. attach (ops b) = Some h \<and> h p d a (env s) = ((ret, pa), e') \<longrightarrow>
               (ret \<noteq> 0 \<longrightarrow>
                  dma_buf_attach s p d =
                    Done (ERR_PTR ret,
                          s\<lparr>free_mem := rest @ [a], attachs := (attachs s)(a := None),
                             env := e', trace := trace s @ [Ops_attach p d a]\<rparr>))
             \<and> (ret = 0 \<longrightarrow>
                  dma_buf_attach s p d =
                    Done (a, s\<lparr>free_mem := rest,
                               attachs := (attachs s)(a \<mapsto> \<lparr>dmabuf = p, dev = d, priv_att = pa\<rparr>),
                               env := e', trace := trace s @ [Ops_attach p d a],
                               bufs := (bufs s)(p \<mapsto> b\<lparr>attachments := a # attachments b\<rparr>)\<rparr>))))"
proof (intro conjI allI impI)
  assume "free_mem s = []"
  with assms show "dma_buf_attach s p d = Done (ERR_PTR (- ENOMEM), s)"
    by (simp add: dma_buf_attach_def kzalloc_def)
next
  fix a rest assume f: "free_mem s = a # rest \<and> a \<noteq> 0"
  { assume "attach (ops b) = None"
    with f assms show "dma_buf_attach s p d =
                 Done (a, s\<lparr>free_mem := rest,
                            attachs := (attachs s)(a \<mapsto> \<lparr>dmabuf = p, dev = d, priv_att = 0\<rparr>),
                            bufs := (bufs s)(p \<mapsto> b\<lparr>attachments := a # attachments b\<rparr>)\<rparr>)"
      by (simp add: dma_buf_attach_def kzalloc_def upd_buf_def Let_def) }
  { fix h ret pa e'
    assume h: "attach (ops b) = Some h \<and> h p d a (env s) = ((ret, pa), e')"
    { assume "ret \<noteq> 0"
      with h f assms show "dma_buf_attach s p d =
                    Done (ERR_PTR ret,
                          s\<lparr>free_mem := rest @ [a], attachs := (attachs s)(a := None),
                             env := e', trace := trace s @ [Ops_attach p d a]\<rparr>)"
        by (simp add: dma_buf_attach_def kzalloc_def upd_buf_def Let_def call_out_def
              kfree_attachment_def) }
    { assume "ret = 0"
      with h f assms show "dma_buf_attach s p d =
                    Done (a, s\<lparr>free_mem := rest,
                               attachs := (attachs s)(a \<mapsto> \<lparr>dmabuf = p, dev = d, priv_att = pa\<rparr>),
                               env := e', trace := trace s @ [Ops_attach p d a],
                               bufs := (bufs s)(p \<mapsto> b\<lparr>attachments := a # attachments b\<rparr>)\<rparr>)"
        by (simp add: dma_buf_attach_def kzalloc_def upd_buf_def Let_def call_out_def) } }
qed

theorem dma_buf_attach_spec_witness:
  "dma_buf_attach demo_kernel_no_mem 0x1000 0x8000 = Done (ERR_PTR (- ENOMEM), demo_kernel_no_mem)
   \<and> dma_buf_attach (demo_kernel\<lparr>bufs := [0x1000 \<mapsto> demo_buf_bare]\<rparr>) 0x1000 0x8000
       = Done (0x3000, demo_kernel\<lparr>free_mem := [0x4000],
                 attachs := [0x3000 \<mapsto> \<lparr>dmabuf = 0x1000, dev = 0x8000, priv_att = 0\<rparr>],
                 bufs := [0x1000 \<mapsto> demo_buf_bare\<lparr>attachments := [0x3000]\<rparr>]\<rparr>)
   \<and> dma_buf_attach (demo_kernel\<lparr>bufs := [0x1000 \<mapsto> demo_buf_refusing]\<rparr>) 0x1000 0x8000
       = Done (ERR_PTR (- 12), demo_kernel\<lparr>bufs := [0x1000 \<mapsto> demo_buf_refusing],
                 free_mem := [0x4000, 0x3000], env := 1,
                 trace := [Ops_attach 0x1000 0x8000 0x3000]\<rparr>)
   \<and> dma_buf_attach demo_kernel 0x1000 0x8000
       = Done (0x3000, demo_kernel\<lparr>free_mem := [0x4000],
                 attachs := [0x3000 \<mapsto> \<lparr>dmabuf = 0x1000, dev = 0x8000, priv_att = 0x55\<rparr>],
                 trace := [Ops_attach 0x1000 0x8000 0x3000],
                 bufs := [0x1000 \<mapsto> demo_buf\<lparr>attachments := [0x3000]\<rparr>]\<rparr>)"
proof -
  have nz: "(0x1000 :: ptr) \<noteq> 0" "(0x8000 :: ptr) \<noteq> 0" by simp_all
  have 1: "dma_buf_attach demo_kernel_no_mem 0x1000 0x8000 = Done (ERR_PTR (- ENOMEM), demo_kernel_no_mem)"
    using dma_buf_attach_spec [OF nz, of demo_kernel_no_mem demo_buf_bare]
    by (simp add: demo_kernel_no_mem_def demo_kernel_def)
  have 2: "dma_buf_attach (demo_kernel\<lparr>bufs := [0x1000 \<mapsto> demo_buf_bare]\<rparr>) 0x1000 0x8000
       = Done (0x3000, demo_kernel\<lparr>free_mem := [0x4000],
                 attachs := [0x3000 \<mapsto> \<lparr>dmabuf = 0x1000, dev = 0x8000, priv_att = 0\<rparr>],
                 bufs := [0x1000 \<mapsto> demo_buf_bare\<lparr>attachments := [0x3000]\<rparr>]\<rparr>)"
    using dma_buf_attach_spec [OF nz, of "demo_kernel\<lparr>bufs := [0x1000 \<mapsto> demo_buf_bare]\<rparr>" demo_buf_bare]
    by (simp add: demo_kernel_def demo_buf_bare_def demo_buf_def)
  have 3: "dma_buf_attach (demo_kernel\<lparr>bufs := [0x1000 \<mapsto> demo_buf_refusing]\<rparr>) 0x1000 0x8000
       = Done (ERR_PTR (- 12), demo_kernel\<lparr>bufs := [0x1000 \<mapsto> demo_buf_refusing],
                 free_mem := [0x4000, 0x3000], env := 1,
                 trace := [Ops_attach 0x1000 0x8000 0x3000]\<rparr>)"
    using dma_buf_attach_spec [OF nz, of "demo_kernel\<lparr>bufs := [0x1000 \<mapsto> demo_buf_refusing]\<rparr>" demo_buf_refusing]
    by (simp add: demo_kernel_def demo_buf_refusing_def demo_buf_def)
  have 4: "dma_buf_attach demo_kernel 0x1000 0x8000
       = Done (0x3000, demo_kernel\<lparr>free_mem := [0x4000],
                 attachs := [0x3000 \<mapsto> \<lparr>dmabuf = 0x1000, dev = 0x8000, priv_att = 0x55\<rparr>],
                 trace := [Ops_attach 0x1000 0x8000 0x3000],
                 bufs := [0x1000 \<mapsto> demo_buf\<lparr>attachments := [0x3000]\<rparr>]\<rparr>)"
    using dma_buf_attach_spec [OF nz, of demo_kernel demo_buf]
    by (simp add: demo_kernel_def demo_buf_def demo_ops_def)
  from 1 2 3 4 show ?thesis by (intro conjI)
qed

text \<open>
  The claim as written promises an inserted record whenever the hook is absent. With
  no memory left, and no attach hook, nothing is inserted and \<open>ENOMEM\<close> comes back.
\<close>

theorem dma_buf_attach_no_memory:
  "bufs demo_kernel_no_mem 0x1000 = Some demo_buf_bare
   \<and> attach (ops demo_buf_bare) = None
   \<and> attachments demo_buf_bare = []
   \<and> dma_buf_attach demo_kernel_no_mem 0x1000 0x8000 = Done (ERR_PTR (- ENOMEM), demo_kernel_no_mem)"
  by (simp add: demo_kernel_no_mem_def demo_buf_bare_def demo_kernel_def demo_buf_def demo_ops_def
        dma_buf_attach_def kzalloc_def)

subsection \<open>The ioctl interface\<close>

text \<open>
  C10, as amended. The \<open>GET_INFO\<close> command on the file of a buffer: when the request
  structure can be read from user memory and written back to it, the call returns 0 and
  the structure in user memory holds \<open>fence_supported = 0\<close> and the buffer's size,
  whether or not the buffer has reservation state; when the structure cannot be read,
  and when it can be read and cannot be written back, the call returns \<open>-EFAULT\<close> and
  nothing changes. \<open>dma_buf_get_info\<close> itself always returns 0.
\<close>

theorem dma_buf_get_info_spec:
  assumes "files s filp = Some f" and "f_op f = Dma_buf_fops" and "private_data f = p" and "p \<noteq> 0"
    and "bufs s p = Some b"
  shows "(\<forall>info. user_info s arg = Some info \<and> arg \<in> user_writable s \<longrightarrow>
            dma_buf_ioctl L ret0 s filp DMABUF_IOCTL_GET_INFO arg =
              Done (0, s\<lparr>user_info := (user_info s)(arg \<mapsto> info\<lparr>fence_supported := 0, size_i := size_b b\<rparr>)\<rparr>))
       \<and> (user_info s arg = None \<longrightarrow>
            dma_buf_ioctl L ret0 s filp DMABUF_IOCTL_GET_INFO arg = Done (- EFAULT, s))
       \<and> (\<forall>info. user_info s arg = Some info \<and> arg \<notin> user_writable s \<longrightarrow>
            dma_buf_ioctl L ret0 s filp DMABUF_IOCTL_GET_INFO arg = Done (- EFAULT, s))
       \<and> (\<forall>info. dma_buf_get_info b info = (0, info\<lparr>fence_supported := 0, size_i := size_b b\<rparr>))"
  using assms
  by (simp add: dma_buf_ioctl_def is_dma_buf_file_def dma_buf_get_info_def
        copy_from_user_info_def copy_to_user_info_def)

theorem dma_buf_get_info_spec_witness:
  "dma_buf_ioctl demo_sync 0 demo_kernel 0x2000 DMABUF_IOCTL_GET_INFO 0x9000
     = Done (0, demo_kernel\<lparr>user_info := [0x9000 \<mapsto> \<lparr>fence_supported = 0, size_i = 0x4000\<rparr>]\<rparr>)
   \<and> dma_buf_ioctl demo_sync 0 demo_kernel 0x2000 DMABUF_IOCTL_GET_INFO 0x1234 = Done (- EFAULT, demo_kernel)
   \<and> dma_buf_ioctl demo_sync 0 (demo_kernel\<lparr>user_writable := {0xA000}\<rparr>) 0x2000 DMABUF_IOCTL_GET_INFO 0x9000
       = Done (- EFAULT, demo_kernel\<lparr>user_writable := {0xA000}\<rparr>)
   \<and> sync demo_buf \<noteq> None"
proof -
  let ?f = "\<lparr>f_count = 1, f_op = Dma_buf_fops, private_data = 0x1000\<rparr>"
  have pre: "files demo_kernel 0x2000 = Some ?f" "f_op ?f = Dma_buf_fops" "private_data ?f = 0x1000"
    "(0x1000 :: ptr) \<noteq> 0" "bufs demo_kernel 0x1000 = Some demo_buf"
    by (simp_all add: demo_kernel_def)
  have pre': "files (demo_kernel\<lparr>user_writable := {0xA000}\<rparr>) 0x2000 = Some ?f"
    "bufs (demo_kernel\<lparr>user_writable := {0xA000}\<rparr>) 0x1000 = Some demo_buf"
    by (simp_all add: demo_kernel_def)
  note T = dma_buf_get_info_spec [OF pre]
  note T' = dma_buf_get_info_spec [OF pre'(1) pre(2-4) pre'(2)]
  have 1: "dma_buf_ioctl demo_sync 0 demo_kernel 0x2000 DMABUF_IOCTL_GET_INFO 0x9000
     = Done (0, demo_kernel\<lparr>user_info := [0x9000 \<mapsto> \<lparr>fence_supported = 0, size_i = 0x4000\<rparr>]\<rparr>)"
    using T [of "0x9000" demo_sync 0, THEN conjunct1, rule_format, of "\<lparr>fence_supported = 1, size_i = 0\<rparr>"]
    by (simp add: demo_kernel_def demo_buf_def)
  have 2: "dma_buf_ioctl demo_sync 0 demo_kernel 0x2000 DMABUF_IOCTL_GET_INFO 0x1234 = Done (- EFAULT, demo_kernel)"
    using T [of "0x1234" demo_sync 0, THEN conjunct2, THEN conjunct1] by (simp add: demo_kernel_def)
  have 3: "dma_buf_ioctl demo_sync 0 (demo_kernel\<lparr>user_writable := {0xA000}\<rparr>) 0x2000 DMABUF_IOCTL_GET_INFO 0x9000
       = Done (- EFAULT, demo_kernel\<lparr>user_writable := {0xA000}\<rparr>)"
    using T' [of "0x9000" demo_sync 0, THEN conjunct2, THEN conjunct2, THEN conjunct1, rule_format,
              of "\<lparr>fence_supported = 1, size_i = 0\<rparr>"]
    by (simp add: demo_kernel_def)
  have 4: "sync demo_buf \<noteq> None" by (simp add: demo_buf_def)
  from 1 2 3 4 show ?thesis by (intro conjI)
qed

text \<open>
  The claim as written lets \<open>GET_INFO\<close> never fail on a buffer's file. With an
  argument that is not an address of user memory it fails with \<open>-EFAULT\<close>.
\<close>

theorem dma_buf_get_info_fault:
  "files demo_kernel 0x2000 = Some \<lparr>f_count = 1, f_op = Dma_buf_fops, private_data = 0x1000\<rparr>
   \<and> bufs demo_kernel 0x1000 = Some demo_buf
   \<and> dma_buf_ioctl demo_sync 0 demo_kernel 0x2000 DMABUF_IOCTL_GET_INFO 0x1234 = Done (- EFAULT, demo_kernel)"
  by (simp add: demo_kernel_def dma_buf_ioctl_def is_dma_buf_file_def copy_from_user_info_def)

text \<open>
  The paths of the two fence commands: \<open>-EPERM\<close> without reservation state,
  \<open>-EBUSY\<close> for \<open>GET_FENCE\<close> with a context already set, \<open>-EFAULT\<close> for
  \<open>PUT_FENCE\<close> with no context, the context stored after a successful init, get and
  lock, the unlock failure returned, and unlock, put and fini with the context cleared.
  When \<open>dmabuf_sync_init\<close> fails, the value returned is the one \<open>ret\<close> happens to
  hold, and when that is not negative the request goes back to the user with context 0.
\<close>

lemma fence_ioctl_paths:
  assumes "files s filp = Some f" and "f_op f = Dma_buf_fops" and "private_data f = p" and "p \<noteq> 0"
    and "bufs s p = Some b"
  shows "(sync b = None \<longrightarrow>
            dma_buf_ioctl L ret0 s filp DMABUF_IOCTL_GET_FENCE arg = Done (- EPERM, s)
          \<and> dma_buf_ioctl L ret0 s filp DMABUF_IOCTL_PUT_FENCE arg = Done (- EPERM, s))
       \<and> (\<forall>df. sync b \<noteq> None \<and> user_fence s arg = Some df \<and> ctx df \<noteq> 0 \<longrightarrow>
            dma_buf_ioctl L ret0 s filp DMABUF_IOCTL_GET_FENCE arg = Done (- EBUSY, s))
       \<and> (\<forall>df. sync b \<noteq> None \<and> user_fence s arg = Some df \<and> ctx df = 0 \<longrightarrow>
            dma_buf_ioctl L ret0 s filp DMABUF_IOCTL_PUT_FENCE arg = Done (- EFAULT, s))
       \<and> (\<forall>df sy e1 r2 e2 r3 e3.
            sync b \<noteq> None \<and> user_fence s arg = Some df \<and> ctx df = 0 \<and> arg \<in> user_writable s
            \<and> dmabuf_sync_init L (env s) = (sy, e1) \<and> \<not> IS_ERR sy
            \<and> dmabuf_sync_get L sy p (type_f df) e1 = (r2, e2) \<and> 0 \<le> r2
            \<and> dmabuf_sync_lock L sy e2 = (r3, e3) \<and> 0 \<le> r3 \<longrightarrow>
            dma_buf_ioctl L ret0 s filp DMABUF_IOCTL_GET_FENCE arg =
              Done (0, s\<lparr>env := e3,
                         trace := trace s @ [Sync_init, Sync_get sy p (type_f df), Sync_lock sy],
                         user_fence := (user_fence s)(arg \<mapsto> df\<lparr>ctx := sy\<rparr>)\<rparr>))
       \<and> (\<forall>df sy e1.
            sync b \<noteq> None \<and> user_fence s arg = Some df \<and> ctx df = 0 \<and> arg \<in> user_writable s
            \<and> dmabuf_sync_init L (env s) = (sy, e1) \<and> IS_ERR sy \<and> 0 \<le> ret0 \<longrightarrow>
            dma_buf_ioctl L ret0 s filp DMABUF_IOCTL_GET_FENCE arg =
              Done (ret0, s\<lparr>env := e1, trace := trace s @ [Sync_init],
                            user_fence := (user_fence s)(arg \<mapsto> df\<lparr>ctx := 0\<rparr>)\<rparr>))
       \<and> (\<forall>df r e1.
            sync b \<noteq> None \<and> user_fence s arg = Some df \<and> ctx df \<noteq> 0
            \<and> dmabuf_sync_unlock L (ctx df) (env s) = (r, e1) \<longrightarrow>
            (r < 0 \<longrightarrow>
               dma_buf_ioctl L ret0 s filp DMABUF_IOCTL_PUT_FENCE arg =
                 Done (r, s\<lparr>env := e1, trace := trace s @ [Sync_unlock (ctx df)]\<rparr>))
          \<and> (r = 0 \<and> arg \<in> user_writable s \<longrightarrow>
               dma_buf_ioctl L ret0 s filp DMABUF_IOCTL_PUT_FENCE arg =
                 Done (0, s\<lparr>env := dmabuf_sync_fini L (ctx df) (dmabuf_sync_put L (ctx df) p e1),
                            trace := trace s @ [Sync_unlock (ctx df), Sync_put (ctx df) p, Sync_fini (ctx df)],
                            user_fence := (user_fence s)(arg \<mapsto> df\<lparr>ctx := 0\<rparr>)\<rparr>)))"
  using assms
  by (auto simp: dma_buf_ioctl_def is_dma_buf_file_def dma_buf_get_fence_def dma_buf_put_fence_def
        copy_from_user_fence_def copy_to_user_fence_def call_out_def call_out_void_def
        EBUSY_def EFAULT_def)

text \<open>
  C8. The claim has \<open>GET_FENCE\<close> store a nonzero context whenever it succeeds. On a
  buffer with reservation state and a request with context 0, when \<open>dmabuf_sync_init\<close>
  fails and the unassigned \<open>ret\<close> holds 0, \<open>GET_FENCE\<close> returns 0 and the request in
  user memory has context 0.
\<close>

theorem dma_buf_get_fence_init_failure:
  "files demo_kernel 0x2000 = Some \<lparr>f_count = 1, f_op = Dma_buf_fops, private_data = 0x1000\<rparr>
   \<and> sync demo_buf \<noteq> None
   \<and> user_fence demo_kernel 0xA000 = Some \<lparr>ctx = 0, type_f = 1\<rparr>
   \<and> IS_ERR (fst (dmabuf_sync_init demo_sync_no_mem (env demo_kernel)))
   \<and> dma_buf_ioctl demo_sync_no_mem 0 demo_kernel 0x2000 DMABUF_IOCTL_GET_FENCE 0xA000
       = Done (0, demo_kernel\<lparr>trace := [Sync_init]\<rparr>)
   \<and> user_fence (demo_kernel\<lparr>trace := [Sync_init]\<rparr>) 0xA000 = Some \<lparr>ctx = 0, type_f = 1\<rparr>"
  by (simp add: demo_kernel_def demo_buf_def demo_sync_no_mem_def demo_sync_def
        dma_buf_ioctl_def is_dma_buf_file_def dma_buf_get_fence_def
        copy_from_user_fence_def copy_to_user_fence_def call_out_def
        IS_ERR_def ERR_PTR_def ENOMEM_def)

subsection \<open>Advisory locks\<close>

lemma trace_upd_buf: "trace (upd_buf p g s) = trace s"
  by (simp add: upd_buf_def split: option.splits)

text \<open>
  The paths of \<open>dma_buf_lock\<close> on a buffer's file, by the mask tests of the source and
  for any values of the constants: unlock, lock with write access, lock with read
  access, \<open>-EINVAL\<close>. The wait argument of the lock is true exactly when the flags have
  a bit of \<open>FL_SLEEP\<close>.
\<close>

lemma dma_buf_lock_paths:
  assumes "files s filp = Some f" and "f_op f = Dma_buf_fops" and "private_data f = p"
  shows "(fl_type fl AND F_UNLCK K = F_UNLCK K \<longrightarrow>
            dma_buf_lock K L s filp cmd fl = Done (0, dmabuf_sync_single_unlock p s))
       \<and> (fl_type fl AND F_UNLCK K \<noteq> F_UNLCK K \<and> fl_type fl AND F_WRLCK K = F_WRLCK K \<longrightarrow>
            dma_buf_lock K L s filp cmd fl =
              (case dmabuf_sync_single_lock L p (DMA_BUF_ACCESS_W K) (fl_flags fl AND FL_SLEEP K \<noteq> 0) (env s) of
                 (ret, e') \<Rightarrow>
                   Done (ret, s\<lparr>env := e',
                                trace := trace s @ [Sync_single_lock p (DMA_BUF_ACCESS_W K)
                                                      (fl_flags fl AND FL_SLEEP K \<noteq> 0)]\<rparr>)))
       \<and> (fl_type fl AND F_UNLCK K \<noteq> F_UNLCK K \<and> fl_type fl AND F_WRLCK K \<noteq> F_WRLCK K
            \<and> fl_type fl AND F_RDLCK K = F_RDLCK K \<longrightarrow>
            dma_buf_lock K L s filp cmd fl =
              (case dmabuf_sync_single_lock L p (DMA_BUF_ACCESS_R K) (fl_flags fl AND FL_SLEEP K \<noteq> 0) (env s) of
                 (ret, e') \<Rightarrow>
                   Done (ret, s\<lparr>env := e',
                                trace := trace s @ [Sync_single_lock p (DMA_BUF_ACCESS_R K)
                                                      (fl_flags fl AND FL_SLEEP K \<noteq> 0)]\<rparr>)))
       \<and> (fl_type fl AND F_UNLCK K \<noteq> F_UNLCK K \<and> fl_type fl AND F_WRLCK K \<noteq> F_WRLCK K
            \<and> fl_type fl AND F_RDLCK K \<noteq> F_RDLCK K \<longrightarrow>
            dma_buf_lock K L s filp cmd fl = Done (- EINVAL, s))
       \<and> trace (dmabuf_sync_single_unlock p s) = trace s @ [Sync_single_unlock p]"
  using assms
  by (simp add: dma_buf_lock_def is_dma_buf_file_def call_out_def Let_def
        dmabuf_sync_single_unlock_def trace_upd_buf note_call_def split: prod.splits)

text \<open>
  With the target's lock types (\<open>F_RDLCK = 0\<close>, \<open>F_WRLCK = 1\<close>, \<open>F_UNLCK = 2\<close>): the
  three lock types are served as the claim says, an unlock by
  \<open>dmabuf_sync_single_unlock\<close> with result 0, a write lock and a read lock by
  \<open>dmabuf_sync_single_lock\<close> with that access and the wait argument from the sleep
  flag. But the read test, a mask with 0, holds for every lock type, so a lock type
  with neither the unlock bit nor the write bit is always taken as a read lock, whatever
  its value, and the branch that returns \<open>-EINVAL\<close> is never taken.
\<close>

lemma dma_buf_lock_on_target:
  assumes "files s filp = Some f" and "f_op f = Dma_buf_fops" and "private_data f = p"
  shows "(fl_type fl = F_UNLCK generic_lock_consts \<longrightarrow>
            dma_buf_lock generic_lock_consts L s filp cmd fl = Done (0, dmabuf_sync_single_unlock p s))
       \<and> (fl_type fl = F_WRLCK generic_lock_consts \<longrightarrow>
            dma_buf_lock generic_lock_consts L s filp cmd fl =
              (case dmabuf_sync_single_lock L p (DMA_BUF_ACCESS_W generic_lock_consts)
                      (fl_flags fl AND 128 \<noteq> 0) (env s) of
                 (ret, e') \<Rightarrow>
                   Done (ret, s\<lparr>env := e',
                                trace := trace s @ [Sync_single_lock p (DMA_BUF_ACCESS_W generic_lock_consts)
                                                      (fl_flags fl AND 128 \<noteq> 0)]\<rparr>)))
       \<and> (fl_type fl AND 2 \<noteq> 2 \<and> fl_type fl AND 1 \<noteq> 1 \<longrightarrow>
            dma_buf_lock generic_lock_consts L s filp cmd fl =
              (case dmabuf_sync_single_lock L p (DMA_BUF_ACCESS_R generic_lock_consts)
                      (fl_flags fl AND 128 \<noteq> 0) (env s) of
                 (ret, e') \<Rightarrow>
                   Done (ret, s\<lparr>env := e',
                                trace := trace s @ [Sync_single_lock p (DMA_BUF_ACCESS_R generic_lock_consts)
                                                      (fl_flags fl AND 128 \<noteq> 0)]\<rparr>)))"
  using assms
  by (auto simp: dma_buf_lock_def is_dma_buf_file_def call_out_def Let_def generic_lock_consts_def
        split: prod.splits)

text \<open>
  C9. The claim has a request that is none of unlock, write lock and read lock fail
  with \<open>-EINVAL\<close>. On the target, lock type 4 is none of \<open>F_RDLCK\<close>, \<open>F_WRLCK\<close> and
  \<open>F_UNLCK\<close>, and \<open>dma_buf_lock\<close> on a buffer's file does not refuse it: it calls
  \<open>dmabuf_sync_single_lock\<close> with read access and returns what that returns, here 0.
\<close>

theorem dma_buf_lock_type_4_read_lock:
  "F_RDLCK generic_lock_consts = 0 \<and> F_WRLCK generic_lock_consts = 1 \<and> F_UNLCK generic_lock_consts = 2
   \<and> DMA_BUF_ACCESS_R generic_lock_consts = 1
   \<and> files demo_kernel 0x2000 = Some \<lparr>f_count = 1, f_op = Dma_buf_fops, private_data = 0x1000\<rparr>
   \<and> dma_buf_lock generic_lock_consts demo_sync demo_kernel 0x2000 6 \<lparr>fl_flags = 0, fl_type = 4\<rparr>
       = Done (0, demo_kernel\<lparr>trace := [Sync_single_lock 0x1000 1 False]\<rparr>)"
  by (simp add: generic_lock_consts_def demo_kernel_def demo_sync_def dma_buf_lock_def
        is_dma_buf_file_def call_out_def)

end
